theory Spec2Isabelle
  imports Complex_Main "HOL-Library.Word"
begin

unbundle bit_operations_syntax

section \<open>Scalars, vectors and matrices\<close>

text \<open>
  The shader PT.hlsl works on 32-bit unsigned integers and on 32-bit floats. A \<open>uint\<close> is a
  32-bit word, with the wrap-around of the hardware. A \<open>float\<close> is modelled by a real
  number, and the arithmetic of colours, throughput and geometry terms is the exact
  arithmetic that the shader's operators approximate. Where the shader moves between
  integers and floats the rounding of the binary32 format is modelled exactly
  (\<open>roundToFloat\<close> below): in every conversion of a \<open>uint\<close> to \<open>float\<close>, and so in the
  sampler \<open>rnd\<close>, and in the product that gives the light index of \<open>sampleLight\<close>.
  These are the values that sit on the boundary the rounding decides.

  Outside their domains (a negative radicand, an arc cosine beyond 1, a negative base of
  \<open>pow\<close>, a division by zero) the HLSL intrinsics return NaN or an infinity, and the real
  functions used here return some real number. No theorem below evaluates them there.
\<close>

type_synonym uint = "32 word"
type_synonym float = real

datatype float2 = float2 (vec2_x: float) (vec2_y: float)
datatype float3 = float3 (vec_x: float) (vec_y: float) (vec_z: float)
datatype float4 = float4 (vec4_x: float) (vec4_y: float) (vec4_z: float) (vec4_w: float)

text \<open>A matrix is the tuple of its rows, as the HLSL constructor \<open>float3x3(r0, r1, r2)\<close> builds it.\<close>

datatype float3x3 = float3x3 (row0: float3) (row1: float3) (row2: float3)
datatype float4x4 = float4x4 (row4_0: float4) (row4_1: float4) (row4_2: float4) (row4_3: float4)

text \<open>\<open>#define PI 3.1415926535\<close>: the shader's constant, not the number \<open>pi\<close>.\<close>

definition PI :: float where
  "PI = 3.1415926535"

text \<open>The operators \<open>+\<close>, \<open>-\<close>, \<open>*\<close> and \<open>/\<close> of HLSL on \<open>float3\<close> work component by component.\<close>

definition add3 :: "float3 \<Rightarrow> float3 \<Rightarrow> float3" where
  "add3 a b = float3 (vec_x a + vec_x b) (vec_y a + vec_y b) (vec_z a + vec_z b)"

definition sub3 :: "float3 \<Rightarrow> float3 \<Rightarrow> float3" where
  "sub3 a b = float3 (vec_x a - vec_x b) (vec_y a - vec_y b) (vec_z a - vec_z b)"

definition mul3 :: "float3 \<Rightarrow> float3 \<Rightarrow> float3" where
  "mul3 a b = float3 (vec_x a * vec_x b) (vec_y a * vec_y b) (vec_z a * vec_z b)"

definition neg3 :: "float3 \<Rightarrow> float3" where
  "neg3 a = float3 (- vec_x a) (- vec_y a) (- vec_z a)"

definition scale3 :: "float3 \<Rightarrow> float \<Rightarrow> float3" where
  "scale3 a s = float3 (vec_x a * s) (vec_y a * s) (vec_z a * s)"

definition divide3 :: "float3 \<Rightarrow> float \<Rightarrow> float3" where
  "divide3 a s = float3 (vec_x a / s) (vec_y a / s) (vec_z a / s)"

definition dot :: "float3 \<Rightarrow> float3 \<Rightarrow> float" where
  "dot a b = vec_x a * vec_x b + vec_y a * vec_y b + vec_z a * vec_z b"

definition dot4 :: "float4 \<Rightarrow> float4 \<Rightarrow> float" where
  "dot4 a b = vec4_x a * vec4_x b + vec4_y a * vec4_y b + vec4_z a * vec4_z b + vec4_w a * vec4_w b"

definition cross :: "float3 \<Rightarrow> float3 \<Rightarrow> float3" where
  "cross a b = float3 (vec_y a * vec_z b - vec_z a * vec_y b)
                      (vec_z a * vec_x b - vec_x a * vec_z b)
                      (vec_x a * vec_y b - vec_y a * vec_x b)"

definition length3 :: "float3 \<Rightarrow> float" where
  "length3 a = sqrt (dot a a)"

definition normalize3 :: "float3 \<Rightarrow> float3" where
  "normalize3 a = divide3 a (length3 a)"

text \<open>
  \<open>mul(v, M)\<close> reads \<open>v\<close> as a row vector, \<open>mul(M, v)\<close> as a column vector.
\<close>

definition transpose3x3 :: "float3x3 \<Rightarrow> float3x3" where
  "transpose3x3 m =
     float3x3 (float3 (vec_x (row0 m)) (vec_x (row1 m)) (vec_x (row2 m)))
              (float3 (vec_y (row0 m)) (vec_y (row1 m)) (vec_y (row2 m)))
              (float3 (vec_z (row0 m)) (vec_z (row1 m)) (vec_z (row2 m)))"

definition mul_vec_mat :: "float3 \<Rightarrow> float3x3 \<Rightarrow> float3" where
  "mul_vec_mat v m =
     add3 (add3 (scale3 (row0 m) (vec_x v)) (scale3 (row1 m) (vec_y v))) (scale3 (row2 m) (vec_z v))"

definition mul_mat_vec4 :: "float4x4 \<Rightarrow> float4 \<Rightarrow> float4" where
  "mul_mat_vec4 m v = float4 (dot4 (row4_0 m) v) (dot4 (row4_1 m) v) (dot4 (row4_2 m) v) (dot4 (row4_3 m) v)"

definition xyz :: "float4 \<Rightarrow> float3" where
  "xyz v = float3 (vec4_x v) (vec4_y v) (vec4_z v)"

text \<open>
  The intrinsic \<open>atan2(y, x)\<close>, on real numbers (the angle of the point \<open>(x, y)\<close> in
  \<open>(-pi, pi]\<close>, and 0 at the origin).
\<close>

definition atan2 :: "float \<Rightarrow> float \<Rightarrow> float" where
  "atan2 y x =
     (if 0 < x then arctan (y / x)
      else if x < 0 then (if 0 \<le> y then arctan (y / x) + pi else arctan (y / x) - pi)
      else if 0 < y then pi / 2
      else if y < 0 then - pi / 2
      else 0)"

section \<open>The data of the shader\<close>

text \<open>\<open>struct Payload\<close>. The field \<open>flags\<close> is declared \<open>int\<close> and only ever read through the
  \<open>uint\<close> parameters of the flag helpers, so it is kept as the 32 bits it holds.\<close>

record Payload =
  depth :: uint
  flags :: uint
  rndState :: uint
  colour :: float3
  pathThroughput :: float3

text \<open>\<open>cbuffer CBuffer\<close>. The shader reads \<open>SPP\<close> only as \<open>asuint(SPP)\<close>, so the field holds the
  bit pattern of that float.\<close>

record CBuffer =
  inverseView :: float4x4
  inverseProjection :: float4x4
  nLights :: uint
  SPP :: uint
  useEnvironmentMap :: uint

record InstanceData =
  startIndex :: uint
  bsdfAlbedoID :: uint
  bsdfData :: "float list"
  coatingData :: "float list"

text \<open>\<open>struct AreaLightData\<close>; its field \<open>normal\<close> is named \<open>lightNormal\<close> here, apart from
  the \<open>normal\<close> of \<open>HitData\<close>.\<close>

record AreaLightData =
  v1 :: float3
  v2 :: float3
  v3 :: float3
  lightNormal :: float3
  Le :: float3

text \<open>\<open>struct HitData\<close>; its field \<open>instance\<close> is named \<open>inst\<close>.\<close>

record HitData =
  pos :: float3
  normal :: float3
  tbn :: float3x3
  uv :: float2
  bsdf :: uint
  albedo :: float3
  inst :: InstanceData

record RayDesc =
  Origin :: float3
  Direction :: float3
  TMin :: float
  TMax :: float

text \<open>
  What the shader reads from outside itself: the acceleration structure \<open>scene\<close>, queried
  by \<open>TraceRay\<close>, the environment map texture and the buffer of area lights.
  \<^item> \<open>closestHit ray\<close> is the nearest intersection of a ray traced with \<open>RAY_FLAG_NONE\<close>,
    given as the \<open>HitData\<close> that \<open>calculateHitData\<close> resolves for it, or \<open>None\<close> for a miss.
    Every theorem below holds for every \<open>HitData\<close>, whatever the resolver computes.
  \<^item> \<open>anyHit ray\<close> says whether a ray traced with
    \<open>RAY_FLAG_ACCEPT_FIRST_HIT_AND_END_SEARCH | RAY_FLAG_SKIP_CLOSEST_HIT_SHADER\<close>
    meets geometry within its bounds.
  \<^item> \<open>environmentMap uv\<close> is \<open>environmentMap.SampleLevel(samplerState, uv, 0)\<close>.
  \<^item> \<open>areaLightData\<close> is the structured buffer of lights; it holds as many elements as
    the scene has lights.
\<close>

record Scene =
  closestHit :: "RayDesc \<Rightarrow> HitData option"
  anyHit :: "RayDesc \<Rightarrow> bool"
  environmentMap :: "float2 \<Rightarrow> float3"
  areaLightData :: "AreaLightData list"

text \<open>
  The shader has no error state of its own. Two of its paths leave the defined behaviour
  of the language, and the model makes them values: a read of \<open>areaLightData\<close> past its
  end (the index is kept), and a use of the \<open>out\<close> parameters of \<open>sampleBSDF\<close> when no
  branch has written them (a BSDF identifier above 7).
\<close>

datatype fault = OutOfBoundsLightRead uint | UninitialisedBSDFSample

section \<open>Sampler\<close>

text \<open>The number of binary digits of a natural number.\<close>

fun bitLength :: "nat \<Rightarrow> nat" where
  "bitLength n = (if n = 0 then 0 else Suc (bitLength (n div 2)))"

declare bitLength.simps [simp del]

text \<open>
  The conversion \<open>(float)n\<close> of an unsigned integer: binary32 keeps 24 significant bits and
  rounds to nearest, ties to even. \<open>roundToFloat n\<close> is the integer value of the float
  obtained. It is also the rounding of a float product whose exact value is \<open>n / 2^32\<close>.
\<close>

definition roundToFloat :: "nat \<Rightarrow> nat" where
  "roundToFloat n =
     (let e = bitLength n - 24;
          q = n div 2 ^ e;
          r = n mod 2 ^ e
      in if 2 * r < 2 ^ e then q * 2 ^ e
         else if 2 ^ e < 2 * r then (q + 1) * 2 ^ e
         else if even q then q * 2 ^ e
         else (q + 1) * 2 ^ e)"

definition uintToFloat :: "uint \<Rightarrow> float" where
  "uintToFloat w = real (roundToFloat (unat w))"

text \<open>The conversion \<open>(uint)f\<close> truncates towards zero and saturates.\<close>

definition floatToUInt :: "float \<Rightarrow> uint" where
  "floatToUInt f =
     (if f < 0 then 0
      else if 4294967296 \<le> f then 4294967295
      else word_of_nat (nat \<lfloor>f\<rfloor>))"

text \<open>
  \<open>float rnd(inout uint rndState)\<close>: the new state is returned beside the float. The
  division by \<open>4294967296.0\<close> is by a power of two and exact.
\<close>

definition rnd :: "uint \<Rightarrow> float \<times> uint" where
  "rnd st =
     (let st = st * 747796405 + 2891336453;
          word = (drop_bit (unat (drop_bit 28 st + 4)) st XOR st) * 277803737
      in (uintToFloat (drop_bit 22 word XOR word) / 4294967296, st))"

text \<open>
  The product \<open>f * n\<close> of a float \<open>f\<close> that is a multiple of \<open>2^-32\<close> (every value of \<open>rnd\<close>
  is) with an unsigned integer \<open>n\<close>: \<open>n\<close> is converted to float and the exact product is
  rounded to 24 significant bits.
\<close>

definition mulFloatUInt :: "float \<Rightarrow> uint \<Rightarrow> float" where
  "mulFloatUInt f n = real (roundToFloat (nat \<lfloor>f * 4294967296\<rfloor> * roundToFloat (unat n))) / 4294967296"

section \<open>Flags\<close>

definition encodeIsSpecular :: "uint \<Rightarrow> uint" where
  "encodeIsSpecular fl = fl OR 2"

definition clearSpecular :: "uint \<Rightarrow> uint" where
  "clearSpecular fl = fl AND 0xFD"

definition decodeIsSpecular :: "uint \<Rightarrow> bool" where
  "decodeIsSpecular fl = (fl AND 2 > 0)"

definition encodeIsShadow :: "uint \<Rightarrow> uint" where
  "encodeIsShadow fl = fl OR 4"

definition decodeIsShadow :: "uint \<Rightarrow> bool" where
  "decodeIsShadow fl = (fl AND 4 > 0)"

section \<open>Environment map, tone mapping, Miss\<close>

definition evaluateEnvironmentMap :: "Scene \<Rightarrow> float3 \<Rightarrow> float3" where
  "evaluateEnvironmentMap sc wi =
     (let u = atan2 (vec_z wi) (vec_x wi);
          u = (if u < 0 then u + 2 * PI else u);
          u = u / (2 * PI);
          v = arccos (vec_y wi) / PI
      in environmentMap sc (float2 u v))"

definition tmo :: "float3 \<Rightarrow> float3" where
  "tmo p = float3 (vec_x p powr (1 / 2.2)) (vec_y p powr (1 / 2.2)) (vec_z p powr (1 / 2.2))"

definition itmo :: "float3 \<Rightarrow> float3" where
  "itmo p = float3 (vec_x p powr 2.2) (vec_y p powr 2.2) (vec_z p powr 2.2)"

text \<open>The miss shader; \<open>ray\<close> is the ray that missed (\<open>WorldRayDirection()\<close> is its direction).\<close>

definition Miss :: "Scene \<Rightarrow> RayDesc \<Rightarrow> Payload \<Rightarrow> Payload" where
  "Miss sc ray payload =
     (if \<not> decodeIsShadow (flags payload)
      then (if depth payload = 0 \<or> decodeIsSpecular (flags payload)
            then payload\<lparr>colour := add3 (colour payload)
                   (mul3 (pathThroughput payload) (evaluateEnvironmentMap sc (Direction ray)))\<rparr>
            else payload)
      else payload\<lparr>pathThroughput :=
             float3 1 (vec_y (pathThroughput payload)) (vec_z (pathThroughput payload))\<rparr>)"

section \<open>Sampling routines\<close>

text \<open>
  Where a call has two \<open>rnd(rndState)\<close> arguments, the model draws the left one first.
  No theorem below depends on that order.
\<close>

definition sphericalToWorld :: "float \<Rightarrow> float \<Rightarrow> float3" where
  "sphericalToWorld theta phi = float3 (cos phi * sin theta) (sin phi * sin theta) (cos theta)"

definition cosineSampleHemisphere :: "float \<Rightarrow> float \<Rightarrow> float3" where
  "cosineSampleHemisphere r1 r2 =
     (let theta = arccos (sqrt r1);
          phi = 2 * PI * r2
      in sphericalToWorld theta phi)"

definition cosineHemispherePDF :: "float3 \<Rightarrow> float" where
  "cosineHemispherePDF wi = vec_z wi / PI"

definition uniformSampleSphere :: "float \<Rightarrow> float \<Rightarrow> float3" where
  "uniformSampleSphere r1 r2 =
     (let z = 1 - 2 * r1;
          r = sqrt (max 0 (1 - z * z));
          phi = 2 * PI * r2
      in float3 (r * cos phi) (r * sin phi) z)"

definition uniformSpherePDF :: float where
  "uniformSpherePDF = 1 / (4 * PI)"

definition uniformSampleTriangle :: "float \<Rightarrow> float \<Rightarrow> float \<times> float \<times> float" where
  "uniformSampleTriangle r1 r2 =
     (let alpha = 1 - sqrt r1;
          beta = sqrt r1 * r2;
          gamma = 1 - (alpha + beta)
      in (alpha, beta, gamma))"

text \<open>
  \<open>sampleLight\<close> returns the light, the pmf it sets and the new sampler state. The index
  is \<open>rnd(rndState) * nLights\<close> converted to \<open>uint\<close>; an index past the end of the buffer is
  the fault \<open>OutOfBoundsLightRead\<close>.
\<close>

definition sampleLight :: "Scene \<Rightarrow> CBuffer \<Rightarrow> uint \<Rightarrow> fault + (AreaLightData \<times> float \<times> uint)" where
  "sampleLight sc cb st =
     (let (r, st) = rnd st;
          lightIndex = floatToUInt (mulFloatUInt r (nLights cb));
          pmf = 1 / uintToFloat (nLights cb)
      in if unat lightIndex < length (areaLightData sc)
         then Inr (areaLightData sc ! unat lightIndex, pmf, st)
         else Inl (OutOfBoundsLightRead lightIndex))"

definition sampleAreaLight :: "AreaLightData \<Rightarrow> uint \<Rightarrow> float3 \<times> float \<times> uint" where
  "sampleAreaLight lightData st =
     (let (r1, st) = rnd st;
          (r2, st) = rnd st;
          (u, v, w) = uniformSampleTriangle r1 r2;
          p = add3 (add3 (scale3 (v1 lightData) u) (scale3 (v2 lightData) v)) (scale3 (v3 lightData) w);
          pdf = 1 / (length3 (cross (sub3 (v3 lightData) (v2 lightData))
                                    (sub3 (v1 lightData) (v3 lightData))) * 0.5)
      in (p, pdf, st))"

text \<open>
  \<open>sampleBSDF\<close> returns the world-space direction, the reflected colour, the pdf, the
  specular flag and the new sampler state. The source is a sequence of \<open>if\<close> statements
  on \<open>hitData.bsdf\<close>, one per identifier 0 to 7, of which at most one holds; the branches
  for 0, 2, 4, 5, 6 and 7 are the same three lines. For an identifier above 7 no branch
  writes the outputs. \<open>ray\<close> is the ray that hit (\<open>WorldRayDirection()\<close> is its direction).
\<close>

definition sampleBSDF ::
  "RayDesc \<Rightarrow> HitData \<Rightarrow> uint \<Rightarrow> fault + (float3 \<times> float3 \<times> float \<times> bool \<times> uint)" where
  "sampleBSDF ray hitData st =
     (let woLocal = mul_vec_mat (neg3 (Direction ray)) (transpose3x3 (tbn hitData));
          toWorld = (\<lambda>wiLocal. normalize3 (mul_vec_mat wiLocal (tbn hitData)));
          diffuse = (let (r1, st1) = rnd st;
                         (r2, st2) = rnd st1;
                         wiLocal = cosineSampleHemisphere r1 r2
                     in Inr (toWorld wiLocal, divide3 (albedo hitData) PI,
                             cosineHemispherePDF wiLocal, False, st2))
      in if bsdf hitData = 0 then diffuse
         else if bsdf hitData = 1 then Inr (toWorld woLocal, float3 0 0 0, 0, False, st)
         else if bsdf hitData = 2 then diffuse
         else if bsdf hitData = 3
         then (let wiLocal = float3 (- vec_x woLocal) (- vec_y woLocal) (vec_z woLocal)
               in Inr (toWorld wiLocal, divide3 (albedo hitData) (vec_z wiLocal), 1, True, st))
         else if bsdf hitData = 4 then diffuse
         else if bsdf hitData = 5 then diffuse
         else if bsdf hitData = 6 then diffuse
         else if bsdf hitData = 7 then diffuse
         else Inl UninitialisedBSDFSample)"

text \<open>\<open>evaluateBSDF\<close> computes \<open>woLocal\<close> and \<open>wiLocal\<close> and uses neither.\<close>

definition evaluateBSDF :: "HitData \<Rightarrow> float3 \<Rightarrow> float3" where
  "evaluateBSDF hitData wi =
     (if bsdf hitData = 0 then divide3 (albedo hitData) PI
      else if bsdf hitData = 1 then float3 0 0 0
      else if bsdf hitData = 2 then divide3 (albedo hitData) PI
      else if bsdf hitData = 3 then float3 0 0 0
      else if bsdf hitData = 4 then float3 0 0 0
      else if bsdf hitData = 5 then divide3 (albedo hitData) PI
      else if bsdf hitData = 6 then divide3 (albedo hitData) PI
      else if bsdf hitData = 7 then divide3 (albedo hitData) PI
      else divide3 (albedo hitData) PI)"

definition isLight :: "HitData \<Rightarrow> bool" where
  "isLight hitData = (bsdf hitData = 1)"

section \<open>Visibility and direct lighting\<close>

text \<open>
  \<open>visible\<close> traces a shadow ray whose payload carries the shadow flag and a red
  throughput of 0. The closest-hit shader is skipped; on a miss the miss shader runs and
  sets the red throughput to 1. The source leaves the other fields of the shadow payload
  uninitialised; they are 0 here, and \<open>Miss\<close> reads none of them once the shadow flag is
  set.
\<close>

definition visible :: "Scene \<Rightarrow> float3 \<Rightarrow> float3 \<Rightarrow> bool" where
  "visible sc p1 p2 =
     (let dir = sub3 p2 p1;
          l = length3 dir;
          dir = normalize3 dir;
          shadowRay = \<lparr>Origin = add3 p1 (scale3 dir 0.0001), Direction = dir,
                       TMin = 0.0001, TMax = l - 0.0002\<rparr>;
          shadowPayload = \<lparr>depth = 0, flags = encodeIsShadow 0, rndState = 0,
                           colour = float3 0 0 0, pathThroughput = float3 0 0 0\<rparr>;
          shadowPayload = (if anyHit sc shadowRay then shadowPayload
                           else Miss sc shadowRay shadowPayload)
      in vec_x (pathThroughput shadowPayload) > 0)"

text \<open>
  The condition of the \<open>if\<close> of \<open>calculateDirect\<close>:
  \<open>useEnvironmentMap == 1 && (rnd(rndState) < (float)nLights + 1 || nLights == 0)\<close>,
  with the sampler state it leaves. \<open>&&\<close> does not evaluate its right operand when the
  left one is false (the rule of HLSL 2021; under the older rule both operands are
  evaluated, which moves the sampler state on and leaves the value of the condition as
  it is). \<open>(float)nLights + 1\<close> is a float addition of two integers.
\<close>

definition takesEnvironmentBranch :: "CBuffer \<Rightarrow> uint \<Rightarrow> bool \<times> uint" where
  "takesEnvironmentBranch cb st =
     (if useEnvironmentMap cb = 1
      then (let (r, st) = rnd st
            in (r < real (roundToFloat (roundToFloat (unat (nLights cb)) + 1)) \<or> nLights cb = 0, st))
      else (False, st))"

text \<open>The first block of \<open>calculateDirect\<close>: a direction on the sphere and the environment map.\<close>

definition directEnvironment :: "Scene \<Rightarrow> CBuffer \<Rightarrow> HitData \<Rightarrow> uint \<Rightarrow> float3 \<times> uint" where
  "directEnvironment sc cb hitData st =
     (let pmf = 1 / uintToFloat (nLights cb + 1);
          (r1, st) = rnd st;
          (r2, st) = rnd st;
          wi = uniformSampleSphere r1 r2;
          pdf = uniformSpherePDF
      in if dot (normal hitData) wi > 0 \<and> visible sc (add3 (pos hitData) (scale3 wi 1000)) (pos hitData)
         then (divide3 (scale3 (mul3 (evaluateEnvironmentMap sc wi) (evaluateBSDF hitData wi))
                               (dot (normal hitData) wi)) (pmf * pdf), st)
         else (float3 0 0 0, st))"

text \<open>
  The second block of \<open>calculateDirect\<close>: a point on an area light. \<open>sampleLight\<close> sets
  \<open>pmf\<close>, and the next statement overwrites it with \<open>1 / (float)(nLights + 1)\<close>, whether
  or not an environment map is in use. \<open>areaLightContribution\<close> is the rest of the block,
  from the comment "Sample a point on the light's surface" on, with the pmf it divides by
  as an argument.
\<close>

definition areaLightContribution ::
  "Scene \<Rightarrow> HitData \<Rightarrow> AreaLightData \<Rightarrow> float \<Rightarrow> uint \<Rightarrow> float3 \<times> uint" where
  "areaLightContribution sc hitData light pmf st =
     (let (p, pdf, st) = sampleAreaLight light st;
          wi = sub3 p (pos hitData);
          l = length3 wi;
          wi = normalize3 wi;
          GTerm = max (dot (normal hitData) wi) 0 * max (dot (lightNormal light) (neg3 wi)) 0 / (l * l)
      in if GTerm > 0 \<and> visible sc p (pos hitData)
         then (divide3 (scale3 (mul3 (Le light) (evaluateBSDF hitData wi)) GTerm) (pmf * pdf), st)
         else (float3 0 0 0, st))"

definition directAreaLight :: "Scene \<Rightarrow> CBuffer \<Rightarrow> HitData \<Rightarrow> uint \<Rightarrow> fault + (float3 \<times> uint)" where
  "directAreaLight sc cb hitData st =
     (case sampleLight sc cb st of
        Inl f \<Rightarrow> Inl f
      | Inr (light, pmf, st) \<Rightarrow>
          (let pmf = 1 / uintToFloat (nLights cb + 1)
           in Inr (areaLightContribution sc hitData light pmf st)))"

definition calculateDirect :: "Scene \<Rightarrow> CBuffer \<Rightarrow> HitData \<Rightarrow> uint \<Rightarrow> fault + (float3 \<times> uint)" where
  "calculateDirect sc cb hitData st =
     (let (env, st) = takesEnvironmentBranch cb st
      in if env then Inr (directEnvironment sc cb hitData st)
         else directAreaLight sc cb hitData st)"

section \<open>The closest-hit shader and the path\<close>

text \<open>
  The Russian-roulette lines of \<open>ClosestHit\<close>, with the number drawn as an argument:
  \<open>None\<close> when the shader returns, else the rescaled throughput.
\<close>

definition rouletteStep :: "float \<Rightarrow> uint \<Rightarrow> float3 \<Rightarrow> float3 option" where
  "rouletteStep r d throughput =
     (let q = min (dot throughput (float3 0.2126 0.7152 0.0722)) 0.7
      in if r < q \<or> d = 7 then None else Some (divide3 throughput (1 - q)))"

text \<open>
  What the roulette leaves of the throughput for a given draw, \<open>kept ? throughput / (1 - q) : 0\<close>,
  and its mean over the \<open>n\<close> equally spaced draws \<open>0/n, 1/n, ..., (n-1)/n\<close> of the unit
  interval. The expectation over a draw uniform on \<open>[0, 1)\<close> is the limit of these means.
\<close>

definition rouletteSurvivor :: "float \<Rightarrow> uint \<Rightarrow> float3 \<Rightarrow> float3" where
  "rouletteSurvivor r d throughput =
     (case rouletteStep r d throughput of None \<Rightarrow> float3 0 0 0 | Some t \<Rightarrow> t)"

definition rouletteMean :: "nat \<Rightarrow> uint \<Rightarrow> float3 \<Rightarrow> float3" where
  "rouletteMean n d throughput =
     float3 ((\<Sum>k<n. vec_x (rouletteSurvivor (real k / real n) d throughput)) / real n)
            ((\<Sum>k<n. vec_y (rouletteSurvivor (real k / real n) d throughput)) / real n)
            ((\<Sum>k<n. vec_z (rouletteSurvivor (real k / real n) d throughput)) / real n)"

text \<open>
  One invocation of \<open>ClosestHit\<close> ends in one of three ways: the shader returns (\<open>Stop\<close>,
  with the payload it leaves), it calls \<open>TraceRay\<close> as its last statement (\<open>Trace\<close>, with
  the ray and the payload handed over), or it has left the defined behaviour (\<open>Fault\<close>).
\<close>

datatype bounce = is_Stop: Stop Payload | is_Trace: Trace RayDesc Payload | is_Fault: Fault fault

text \<open>
  The last part of \<open>ClosestHit\<close>, from the comment "Sample indirect illumination from the
  BSDF" to the call of \<open>TraceRay\<close>.
\<close>

definition sampleIndirect :: "RayDesc \<Rightarrow> HitData \<Rightarrow> Payload \<Rightarrow> bounce" where
  "sampleIndirect ray hitData payload =
     (case sampleBSDF ray hitData (rndState payload) of
        Inl f \<Rightarrow> Fault f
      | Inr (wi, indirect, pdf, isSpecular, st) \<Rightarrow>
         (let payload = payload\<lparr>rndState := st\<rparr>
          in if pdf \<le> 0 then Stop payload
             else Trace
               \<lparr>Origin = add3 (pos hitData)
                   (scale3 (if dot wi (normal hitData) > 0 then normal hitData
                            else neg3 (normal hitData)) 0.001),
                Direction = wi, TMin = 0.001, TMax = 1000\<rparr>
               (payload\<lparr>pathThroughput :=
                    divide3 (scale3 (mul3 (pathThroughput payload) indirect)
                                    \<bar>dot wi (normal hitData)\<bar>) pdf,
                  depth := depth payload + 1,
                  flags := (if isSpecular then encodeIsSpecular (flags payload)
                            else clearSpecular (flags payload))\<rparr>)))"

definition ClosestHit :: "Scene \<Rightarrow> CBuffer \<Rightarrow> RayDesc \<Rightarrow> HitData \<Rightarrow> Payload \<Rightarrow> bounce" where
  "ClosestHit sc cb ray hitData payload =
     (if isLight hitData \<and> (depth payload = 0 \<or> decodeIsSpecular (flags payload))
      then Stop (payload\<lparr>colour := float3 (bsdfData (inst hitData) ! 0)
                                           (bsdfData (inst hitData) ! 1)
                                           (bsdfData (inst hitData) ! 2)\<rparr>)
      else
       (case calculateDirect sc cb hitData (rndState payload) of
          Inl f \<Rightarrow> Fault f
        | Inr (direct, st) \<Rightarrow>
           (let payload = payload\<lparr>colour := add3 (colour payload) (mul3 (pathThroughput payload) direct),
                                   rndState := st\<rparr>
            in if depth payload = 6 then Stop payload
               else if depth payload > 3
               then (let (r, st) = rnd (rndState payload);
                         payload = payload\<lparr>rndState := st\<rparr>
                     in case rouletteStep r (depth payload) (pathThroughput payload) of
                          None \<Rightarrow> Stop payload
                        | Some throughput \<Rightarrow>
                            sampleIndirect ray hitData (payload\<lparr>pathThroughput := throughput\<rparr>))
               else sampleIndirect ray hitData payload)))"

text \<open>
  \<open>TraceRay\<close> with \<open>RAY_FLAG_NONE\<close>: the miss shader on a miss, the closest-hit shader on a
  hit, and again for the ray the closest-hit shader traces. The payload is passed
  \<open>inout\<close>, so the value the innermost shader leaves is the value the first caller
  reads. The depth is a 32-bit counter that stops the recursion when it equals 6; the
  distance to 6, as a 32-bit difference, decreases with every ray.
\<close>

function TraceRay :: "Scene \<Rightarrow> CBuffer \<Rightarrow> RayDesc \<Rightarrow> Payload \<Rightarrow> fault + Payload" where
  "TraceRay sc cb ray payload =
     (case closestHit sc ray of
        None \<Rightarrow> Inr (Miss sc ray payload)
      | Some hitData \<Rightarrow>
         (case ClosestHit sc cb ray hitData payload of
            Stop payload' \<Rightarrow> Inr payload'
          | Fault f \<Rightarrow> Inl f
          | Trace ray' payload' \<Rightarrow> TraceRay sc cb ray' payload'))"
  by pat_completeness auto
termination
proof (relation "measure (\<lambda>(sc, cb, ray, payload). unat (6 - depth payload))")
  show "wf (measure (\<lambda>(sc, cb, ray, payload). unat (6 - depth payload)))"
    by simp
next
  fix sc :: Scene and cb :: CBuffer and ray ray' :: RayDesc and payload payload' :: Payload
    and hitData :: HitData
  assume "ClosestHit sc cb ray hitData payload = Trace ray' payload'"
  then have d: "depth payload \<noteq> 6 \<and> depth payload' = depth payload + 1"
    by (auto simp: ClosestHit_def sampleIndirect_def Let_def
          split: if_splits sum.splits prod.splits option.splits)
  define left where "left = 6 - depth payload"
  from d have "left \<noteq> 0"
    by (simp add: left_def)
  then have less: "unat (left - 1) < unat left"
    by (simp add: unat_minus_one unat_gt_0)
  have "6 - depth payload' = left - 1"
    using d by (simp add: left_def)
  then have "unat (6 - depth payload') = unat (left - 1)"
    by (rule arg_cong)
  also note less
  finally have "unat (6 - depth payload') < unat (6 - depth payload)"
    unfolding left_def .
  then show "((sc, cb, ray', payload'), (sc, cb, ray, payload))
      \<in> measure (\<lambda>(sc, cb, ray, payload). unat (6 - depth payload))"
    by simp
qed

declare TraceRay.simps [simp del]

text \<open>The number of rays the path traces with \<open>RAY_FLAG_NONE\<close>, by the same recursion.\<close>

function raySegments :: "Scene \<Rightarrow> CBuffer \<Rightarrow> RayDesc \<Rightarrow> Payload \<Rightarrow> nat" where
  "raySegments sc cb ray payload =
     Suc (case closestHit sc ray of
            None \<Rightarrow> 0
          | Some hitData \<Rightarrow>
             (case ClosestHit sc cb ray hitData payload of
                Stop payload' \<Rightarrow> 0
              | Fault f \<Rightarrow> 0
              | Trace ray' payload' \<Rightarrow> raySegments sc cb ray' payload'))"
  by pat_completeness auto
termination
proof (relation "measure (\<lambda>(sc, cb, ray, payload). unat (6 - depth payload))")
  show "wf (measure (\<lambda>(sc, cb, ray, payload). unat (6 - depth payload)))"
    by simp
next
  fix sc :: Scene and cb :: CBuffer and ray ray' :: RayDesc and payload payload' :: Payload
    and hitData :: HitData
  assume "ClosestHit sc cb ray hitData payload = Trace ray' payload'"
  then have d: "depth payload \<noteq> 6 \<and> depth payload' = depth payload + 1"
    by (auto simp: ClosestHit_def sampleIndirect_def Let_def
          split: if_splits sum.splits prod.splits option.splits)
  define left where "left = 6 - depth payload"
  from d have "left \<noteq> 0"
    by (simp add: left_def)
  then have less: "unat (left - 1) < unat left"
    by (simp add: unat_minus_one unat_gt_0)
  have "6 - depth payload' = left - 1"
    using d by (simp add: left_def)
  then have "unat (6 - depth payload') = unat (left - 1)"
    by (rule arg_cong)
  also note less
  finally have "unat (6 - depth payload') < unat (6 - depth payload)"
    unfolding left_def .
  then show "((sc, cb, ray', payload'), (sc, cb, ray, payload))
      \<in> measure (\<lambda>(sc, cb, ray, payload). unat (6 - depth payload))"
    by simp
qed

declare raySegments.simps [simp del]

section \<open>Ray generation and the frame loop\<close>

text \<open>The payload that \<open>RayGeneration\<close> initialises for the pixel \<open>idx = DispatchRaysIndex().xy\<close>.\<close>

definition primaryPayload :: "CBuffer \<Rightarrow> uint \<times> uint \<Rightarrow> Payload" where
  "primaryPayload cb idx =
     \<lparr>depth = 0, flags = 0,
      rndState = fst idx XOR (snd idx * 0x9e3779b9) XOR (SPP cb * 0x85ebca6b),
      colour = float3 0 0 0, pathThroughput = float3 1 1 1\<rparr>"

text \<open>
  \<open>RayGeneration\<close> for the pixel \<open>idx\<close> of a dispatch of dimensions \<open>dims\<close>. The output
  texture \<open>uav\<close> is a function from pixel indices to the \<open>float4\<close> written last; the shader
  returns the texture with the pixel replaced.
\<close>

definition RayGeneration ::
  "Scene \<Rightarrow> CBuffer \<Rightarrow> uint \<times> uint \<Rightarrow> uint \<times> uint \<Rightarrow> (uint \<times> uint \<Rightarrow> float4)
     \<Rightarrow> fault + (uint \<times> uint \<Rightarrow> float4)" where
  "RayGeneration sc cb idx dims uav =
     (let payload = primaryPayload cb idx;
          (r1, st) = rnd (rndState payload);
          (r2, st) = rnd st;
          payload = payload\<lparr>rndState := st\<rparr>;
          uvx = (uintToFloat (fst idx) + r1) / uintToFloat (fst dims);
          uvy = (uintToFloat (snd idx) + r2) / uintToFloat (snd dims);
          uvy = 1 - uvy;
          uvx = uvx * 2 - 1;
          uvy = uvy * 2 - 1;
          cameraPosition = xyz (mul_mat_vec4 (inverseView cb) (float4 0 0 0 1));
          p = mul_mat_vec4 (inverseProjection cb) (float4 uvx uvy 0 1);
          pxyz = normalize3 (divide3 (xyz p) (vec4_w p));
          rayDirection = xyz (mul_mat_vec4 (inverseView cb)
                                (float4 (vec_x pxyz) (vec_y pxyz) (vec_z pxyz) 0));
          ray = \<lparr>Origin = cameraPosition, Direction = rayDirection, TMin = 0.001, TMax = 1000\<rparr>
      in case TraceRay sc cb ray payload of
           Inl f \<Rightarrow> Inl f
         | Inr payload \<Rightarrow>
             Inr (uav(idx := float4 (vec_x (tmo (colour payload))) (vec_y (tmo (colour payload)))
                                    (vec_z (tmo (colour payload))) 1)))"

text \<open>
  The main loop of \<open>WinMain\<close> keeps a counter \<open>SPP\<close>, sets it to 0 on a camera input,
  increments it, and passes \<open>static_cast<float>(SPP)\<close> to the shader. \<open>floatBits n\<close> is the
  binary32 bit pattern of \<open>(float)n\<close>: eight exponent bits above 23 fraction bits.
\<close>

definition floatBits :: "nat \<Rightarrow> uint" where
  "floatBits n =
     (if n = 0 then 0
      else (let m = roundToFloat n;
                len = bitLength m;
                significand = (if len \<le> 24 then m * 2 ^ (24 - len) else m div 2 ^ (len - 24))
            in word_of_nat ((len - 1 + 127) * 2 ^ 23 + (significand - 2 ^ 23))))"

definition nextSPP :: "bool \<Rightarrow> uint \<Rightarrow> uint" where
  "nextSPP cameraInput spp = (if cameraInput then 0 else spp) + 1"

text \<open>
  One turn of the main loop, for one pixel of the dispatch: the counter is updated,
  written to the constant buffer, and the ray-generation shader runs on the texture the
  last frame left.
\<close>

definition frame ::
  "Scene \<Rightarrow> CBuffer \<Rightarrow> bool \<Rightarrow> uint \<times> uint \<Rightarrow> uint \<times> uint \<Rightarrow> uint \<times> (uint \<times> uint \<Rightarrow> float4)
     \<Rightarrow> fault + (uint \<times> (uint \<times> uint \<Rightarrow> float4))" where
  "frame sc cb cameraInput idx dims state =
     (let spp = nextSPP cameraInput (fst state)
      in case RayGeneration sc (cb\<lparr>SPP := floatBits (unat spp)\<rparr>) idx dims (snd state) of
           Inl f \<Rightarrow> Inl f
         | Inr uav \<Rightarrow> Inr (spp, uav))"

section \<open>A test scene\<close>

text \<open>
  One triangular light of radiance \<open>(1, 1, 1)\<close> in the plane \<open>z = 1\<close>, facing down, over
  a diffuse point at the origin with albedo \<open>(1, 1, 1)\<close> and normal \<open>(0, 0, 1)\<close>; no
  geometry is in the way, and the environment is a uniform \<open>(1/2, 1/2, 1/2)\<close>. The tangent
  frame is the one \<open>calculateHitData\<close> builds for that normal.
\<close>

definition exampleLight :: AreaLightData where
  "exampleLight = \<lparr>v1 = float3 0 0 1, v2 = float3 1 0 1, v3 = float3 0 1 1,
                    lightNormal = float3 0 0 (- 1), Le = float3 1 1 1\<rparr>"

definition exampleScene :: Scene where
  "exampleScene = \<lparr>closestHit = (\<lambda>ray. None), anyHit = (\<lambda>ray. False),
                    environmentMap = (\<lambda>uv. float3 (1 / 2) (1 / 2) (1 / 2)),
                    areaLightData = [exampleLight]\<rparr>"

definition identity4x4 :: float4x4 where
  "identity4x4 = float4x4 (float4 1 0 0 0) (float4 0 1 0 0) (float4 0 0 1 0) (float4 0 0 0 1)"

definition exampleCBuffer :: CBuffer where
  "exampleCBuffer = \<lparr>inverseView = identity4x4, inverseProjection = identity4x4,
                      nLights = 1, SPP = 0, useEnvironmentMap = 0\<rparr>"

definition exampleHit :: HitData where
  "exampleHit = \<lparr>pos = float3 0 0 0, normal = float3 0 0 1,
                  tbn = float3x3 (float3 0 1 0) (float3 (- 1) 0 0) (float3 0 0 1),
                  uv = float2 0 0, bsdf = 0, albedo = float3 1 1 1,
                  inst = \<lparr>startIndex = 0, bsdfAlbedoID = 0,
                           bsdfData = [0, 0, 0, 0, 0, 0, 0], coatingData = [0, 0, 0, 0, 0, 0]\<rparr>\<rparr>"

definition exampleRay :: RayDesc where
  "exampleRay = \<lparr>Origin = float3 0 0 1, Direction = float3 0 0 (- 1), TMin = 0.001, TMax = 1000\<rparr>"

definition examplePayload :: Payload where
  "examplePayload = \<lparr>depth = 0, flags = 0, rndState = 0, colour = float3 0 0 0,
                       pathThroughput = float3 1 1 1\<rparr>"

text \<open>
  A second scene: an emissive surface of radiance \<open>(1, 1, 1)\<close> is hit by every ray whose
  direction has a positive x component, every other ray misses, the environment is
  black and there are no area lights.
\<close>

definition emissiveHit :: HitData where
  "emissiveHit = exampleHit\<lparr>bsdf := 1,
     inst := \<lparr>startIndex = 0, bsdfAlbedoID = 0x10000,
              bsdfData = [1, 1, 1, 0, 0, 0, 0], coatingData = [0, 0, 0, 0, 0, 0]\<rparr>\<rparr>"

definition halfScene :: Scene where
  "halfScene = \<lparr>closestHit = (\<lambda>ray. if 0 < vec_x (Direction ray) then Some emissiveHit else None),
                 anyHit = (\<lambda>ray. False),
                 environmentMap = (\<lambda>uv. float3 0 0 0),
                 areaLightData = []\<rparr>"

definition halfCBuffer :: CBuffer where
  "halfCBuffer = \<lparr>inverseView = identity4x4, inverseProjection = identity4x4,
                   nLights = 0, SPP = 0, useEnvironmentMap = 0\<rparr>"

text \<open>
  A third scene: two facing mirrors of albedo \<open>(1/10, 1/10, 1/10)\<close>, the floor \<open>z = 0\<close>
  and the ceiling \<open>z = 1\<close>, under a uniform environment map and with no area lights. A ray
  going down hits the floor, any other ray the ceiling; the tangent frames are those
  \<open>calculateHitData\<close> builds for the two normals.
\<close>

definition floorMirror :: HitData where
  "floorMirror = \<lparr>pos = float3 0 0 0, normal = float3 0 0 1,
                   tbn = float3x3 (float3 0 1 0) (float3 (- 1) 0 0) (float3 0 0 1),
                   uv = float2 0 0, bsdf = 3, albedo = float3 (1 / 10) (1 / 10) (1 / 10),
                   inst = \<lparr>startIndex = 0, bsdfAlbedoID = 0x30000,
                            bsdfData = [0, 0, 0, 0, 0, 0, 0], coatingData = [0, 0, 0, 0, 0, 0]\<rparr>\<rparr>"

definition ceilingMirror :: HitData where
  "ceilingMirror = \<lparr>pos = float3 0 0 1, normal = float3 0 0 (- 1),
                     tbn = float3x3 (float3 0 (- 1) 0) (float3 (- 1) 0 0) (float3 0 0 (- 1)),
                     uv = float2 0 0, bsdf = 3, albedo = float3 (1 / 10) (1 / 10) (1 / 10),
                     inst = \<lparr>startIndex = 0, bsdfAlbedoID = 0x30000,
                              bsdfData = [0, 0, 0, 0, 0, 0, 0], coatingData = [0, 0, 0, 0, 0, 0]\<rparr>\<rparr>"

definition mirrorScene :: Scene where
  "mirrorScene = \<lparr>closestHit = (\<lambda>ray. if vec_z (Direction ray) < 0 then Some floorMirror
                                       else Some ceilingMirror),
                   anyHit = (\<lambda>ray. False),
                   environmentMap = (\<lambda>uv. float3 (1 / 2) (1 / 2) (1 / 2)),
                   areaLightData = []\<rparr>"

definition mirrorCBuffer :: CBuffer where
  "mirrorCBuffer = \<lparr>inverseView = identity4x4, inverseProjection = identity4x4,
                     nLights = 0, SPP = 0, useEnvironmentMap = 1\<rparr>"

section \<open>Facts about the number formats\<close>

lemma bitLength_0: "bitLength 0 = 0"
  by (simp add: bitLength.simps)

lemma bitLength_pos: "n \<noteq> 0 \<Longrightarrow> bitLength n = Suc (bitLength (n div 2))"
  by (subst bitLength.simps) simp

lemma bitLength_upper: "n < 2 ^ bitLength n"
proof (induction n rule: bitLength.induct)
  case (1 n)
  show ?case
  proof (cases "n = 0")
    case True
    then show ?thesis by (simp add: bitLength_0)
  next
    case False
    with 1 have "n div 2 < 2 ^ bitLength (n div 2)" by simp
    then have "n < 2 * 2 ^ bitLength (n div 2)" by linarith
    with False show ?thesis by (simp add: bitLength_pos)
  qed
qed

lemma bitLength_lower: "n \<noteq> 0 \<Longrightarrow> 2 ^ (bitLength n - 1) \<le> n"
proof (induction n rule: bitLength.induct)
  case (1 n)
  show ?case
  proof (cases "n div 2 = 0")
    case True
    with 1 have "n = 1" by linarith
    then show ?thesis by (simp add: bitLength_pos bitLength_0)
  next
    case False
    with 1 have ih: "2 ^ (bitLength (n div 2) - 1) \<le> n div 2" by simp
    from False have "bitLength (n div 2) \<noteq> 0" by (simp add: bitLength_pos)
    then have "(2::nat) ^ bitLength (n div 2) = 2 * 2 ^ (bitLength (n div 2) - 1)"
      by (cases "bitLength (n div 2)") simp_all
    with ih have "2 ^ bitLength (n div 2) \<le> n" by linarith
    with 1 show ?thesis by (simp add: bitLength_pos)
  qed
qed

lemma bitLength_le: "n < 2 ^ k \<Longrightarrow> bitLength n \<le> k"
proof (rule ccontr)
  assume a: "n < 2 ^ k" and b: "\<not> bitLength n \<le> k"
  from b have n0: "n \<noteq> 0" by (cases "n = 0") (simp_all add: bitLength_0)
  from b have "k \<le> bitLength n - 1" by simp
  then have "(2::nat) ^ k \<le> 2 ^ (bitLength n - 1)" by (rule power_increasing) simp
  also have "\<dots> \<le> n" by (rule bitLength_lower [OF n0])
  finally show False using a by simp
qed

lemma roundToFloat_cases:
  "roundToFloat n = (n div 2 ^ (bitLength n - 24)) * 2 ^ (bitLength n - 24) \<or>
   roundToFloat n = (n div 2 ^ (bitLength n - 24) + 1) * 2 ^ (bitLength n - 24)"
  by (simp add: roundToFloat_def Let_def)

lemma roundToFloat_upper: "roundToFloat n \<le> 2 ^ bitLength n"
proof -
  define e where "e = bitLength n - 24"
  define q where "q = n div 2 ^ e"
  have e: "e \<le> bitLength n" by (simp add: e_def)
  have "q * 2 ^ e \<le> n" by (simp add: q_def)
  also have "n < 2 ^ bitLength n" by (rule bitLength_upper)
  also have "(2::nat) ^ bitLength n = 2 ^ (bitLength n - e) * 2 ^ e"
    using e by (simp flip: power_add)
  finally have "q < 2 ^ (bitLength n - e)" by simp
  then have "q + 1 \<le> 2 ^ (bitLength n - e)" by simp
  then have "(q + 1) * 2 ^ e \<le> 2 ^ (bitLength n - e) * 2 ^ e" by (rule mult_le_mono1)
  also have "\<dots> = 2 ^ bitLength n" using e by (simp flip: power_add)
  finally have up: "(q + 1) * 2 ^ e \<le> 2 ^ bitLength n" .
  then have "q * 2 ^ e \<le> 2 ^ bitLength n" by simp
  with up roundToFloat_cases [of n] show ?thesis by (auto simp: q_def e_def)
qed

lemma roundToFloat_lower: "n \<noteq> 0 \<Longrightarrow> 2 ^ (bitLength n - 1) \<le> roundToFloat n"
proof -
  assume n0: "n \<noteq> 0"
  define e where "e = bitLength n - 24"
  define q where "q = n div 2 ^ e"
  have e: "e \<le> bitLength n - 1" by (simp add: e_def)
  have "(2::nat) ^ (bitLength n - 1) = 2 ^ (bitLength n - 1 - e) * 2 ^ e"
    using e by (simp flip: power_add)
  with bitLength_lower [OF n0] have "2 ^ (bitLength n - 1 - e) * 2 ^ e \<le> n" by simp
  then have "2 ^ (bitLength n - 1 - e) \<le> q"
    unfolding q_def by (simp add: less_eq_div_iff_mult_less_eq)
  then have "2 ^ (bitLength n - 1 - e) * 2 ^ e \<le> q * 2 ^ e" by (rule mult_le_mono1)
  moreover have "bitLength n - 1 - e + e = bitLength n - 1" using e by simp
  ultimately have low: "2 ^ (bitLength n - 1) \<le> q * 2 ^ e" by (simp flip: power_add)
  then have "2 ^ (bitLength n - 1) \<le> (q + 1) * 2 ^ e" by simp
  with low roundToFloat_cases [of n] show ?thesis by (auto simp: q_def e_def)
qed

lemma roundToFloat_uint: "n < 2 ^ 32 \<Longrightarrow> roundToFloat n \<le> 2 ^ 32"
proof -
  assume "n < 2 ^ 32"
  then have "bitLength n \<le> 32" by (rule bitLength_le)
  then have "(2::nat) ^ bitLength n \<le> 2 ^ 32" by (rule power_increasing) simp
  with roundToFloat_upper [of n] show ?thesis by linarith
qed

lemma roundToFloat_ge2: "2 \<le> n \<Longrightarrow> 2 \<le> roundToFloat n"
proof -
  assume n: "2 \<le> n"
  then have n0: "n \<noteq> 0" and n1: "n div 2 \<noteq> 0" by auto
  then have "2 \<le> bitLength n" by (simp add: bitLength_pos)
  then have "(2::nat) ^ 1 \<le> 2 ^ (bitLength n - 1)" by (intro power_increasing) auto
  with roundToFloat_lower [OF n0] show ?thesis by simp
qed

lemma roundToFloat_ge1: "1 \<le> n \<Longrightarrow> 1 \<le> roundToFloat n"
proof -
  assume "1 \<le> n"
  then have "2 ^ (bitLength n - 1) \<le> roundToFloat n" by (intro roundToFloat_lower) simp
  moreover have "(1::nat) \<le> 2 ^ (bitLength n - 1)" by simp
  ultimately show ?thesis by linarith
qed

text \<open>The sampler returns a float between 0 and 1, both bounds included.\<close>

lemma rnd_range: "0 \<le> fst (rnd st) \<and> fst (rnd st) \<le> 1"
proof -
  have "roundToFloat (unat w) \<le> 2 ^ 32" for w :: uint
    using unsigned_less [of w] by (intro roundToFloat_uint) simp
  then have "real (roundToFloat (unat w)) \<le> 4294967296" for w :: uint
    using of_nat_le_iff [of "roundToFloat (unat w)" "2 ^ 32", where ?'a = real] by simp
  then show ?thesis
    by (simp add: rnd_def Let_def uintToFloat_def)
qed

lemma uintToFloat_nonzero: "n \<noteq> 0 \<Longrightarrow> uintToFloat n \<noteq> 0"
proof -
  assume "n \<noteq> 0"
  then have "1 \<le> unat n" by (simp add: Suc_le_eq unat_gt_0)
  then have "1 \<le> roundToFloat (unat n)" by (rule roundToFloat_ge1)
  then show ?thesis by (simp add: uintToFloat_def)
qed

lemma rnd_0: "rnd 0 = (129708000 / 4294967296, 2891336453)"
  by (simp add: rnd_def uintToFloat_def roundToFloat_def Let_def bitLength_0 bitLength_pos)

lemma floatBits_1442: "floatBits 1442 = 0x44b44000"
  by (simp add: floatBits_def roundToFloat_def Let_def bitLength_0 bitLength_pos)

section \<open>The sampler (claims C9 and C10)\<close>

text \<open>
  Claim C9: for every 32-bit sampler state, \<open>rnd\<close> advances the state deterministically
  and returns a float in the range \<open>[0, 1)\<close>, at least 0 and strictly less than 1.

  The comment of \<open>rnd\<close> states the same range. The code does not keep it: the output word
  is converted to float before the division by \<open>2^32\<close>, and the conversion rounds the 128
  largest words up to \<open>2^32\<close>. The theorem evaluates \<open>rnd\<close> at such a state, which is the
  state \<open>RayGeneration\<close> starts from at pixel (219, 63) in the frame with \<open>SPP = 1442\<close>:
  the output word is 4294967234 and \<open>rnd\<close> returns exactly 1. (\<open>rnd_range\<close> above gives the
  range the code does keep, \<open>[0, 1]\<close>; being a function of the state, \<open>rnd\<close> is
  deterministic.)
\<close>

theorem rnd_returns_one:
  "rndState (primaryPayload (cb\<lparr>SPP := floatBits 1442\<rparr>) (219, 63)) = 1584411740
   \<and> rnd 1584411740 = (1, 1182405649)"
  by (simp add: primaryPayload_def floatBits_1442 rnd_def uintToFloat_def roundToFloat_def Let_def
      bitLength_0 bitLength_pos)

text \<open>
  Claim C10: for every sampler state and every \<open>nLights \<ge> 1\<close>, the light index computed in
  \<open>sampleLight\<close> as \<open>rnd(rndState) * nLights\<close> is strictly less than \<open>nLights\<close>, so the read
  of \<open>areaLightData\<close> stays within the bounds of the light buffer.

  At the state of the theorem for C9 the sampler returns 1; with one light the index is
  \<open>(uint)(1.0 * 1) = 1\<close>, and the read is one past the only element of the buffer.
\<close>

theorem sampleLight_index_out_of_bounds:
  "sampleLight (sc\<lparr>areaLightData := [light]\<rparr>) (cb\<lparr>nLights := 1\<rparr>) 1584411740
     = Inl (OutOfBoundsLightRead 1)"
  by (simp add: sampleLight_def rnd_def mulFloatUInt_def floatToUInt_def uintToFloat_def
      roundToFloat_def Let_def bitLength_0 bitLength_pos)

section \<open>The choice of the direct-lighting branch (claims C1 and C2)\<close>

lemma rnd_less_lights:
  assumes "nLights cb \<noteq> 0"
  shows "fst (rnd st) < real (roundToFloat (roundToFloat (unat (nLights cb)) + 1))"
proof -
  from assms have "1 \<le> unat (nLights cb)"
    by (simp add: Suc_le_eq unat_gt_0)
  then have "1 \<le> roundToFloat (unat (nLights cb))"
    by (rule roundToFloat_ge1)
  then have "2 \<le> roundToFloat (roundToFloat (unat (nLights cb)) + 1)"
    by (intro roundToFloat_ge2) simp
  then have "2 \<le> real (roundToFloat (roundToFloat (unat (nLights cb)) + 1))"
    by linarith
  with rnd_range [of st] show ?thesis
    by linarith
qed

lemma takesEnvironmentBranch_eq:
  "takesEnvironmentBranch cb st =
     (useEnvironmentMap cb = 1, if useEnvironmentMap cb = 1 then snd (rnd st) else st)"
proof (cases "nLights cb = 0")
  case True
  then show ?thesis
    by (cases "rnd st") (simp add: takesEnvironmentBranch_def)
next
  case False
  from rnd_less_lights [OF False, of st] show ?thesis
    by (cases "rnd st") (simp add: takesEnvironmentBranch_def)
qed

text \<open>
  Claim C1: for every direct-lighting query at a non-emissive hit, when an environment
  map is present and there are N area lights, the integrator chooses the environment
  branch with probability 1/(N+1) and the area-light branch with collective probability
  N/(N+1); when no environment map is present it always takes the area-light branch.

  The code compares the number drawn, which is at most 1, with \<open>(float)nLights + 1\<close>,
  which is at least 2 when there is a light; with no light the second disjunct holds.
  So the condition is true for every sampler state as soon as \<open>useEnvironmentMap\<close> is 1:
  the environment branch is taken always, and the area-light branch never. The second
  half of the claim holds: without an environment map the area-light branch is taken.
  The environment branch still divides by \<open>pmf = 1/(N+1)\<close>, the probability the claim
  gives.
\<close>

theorem calculateDirect_always_environment:
  "fst (takesEnvironmentBranch cb st) = (useEnvironmentMap cb = 1)
   \<and> calculateDirect sc cb hitData st =
       (if useEnvironmentMap cb = 1 then Inr (directEnvironment sc cb hitData (snd (rnd st)))
        else directAreaLight sc cb hitData st)"
  by (simp add: calculateDirect_def takesEnvironmentBranch_eq)

lemma areaLightContribution_scale:
  assumes "b \<noteq> 0"
  shows "areaLightContribution sc hitData light (1 / a) st =
     (scale3 (fst (areaLightContribution sc hitData light (1 / b) st)) (a / b),
      snd (areaLightContribution sc hitData light (1 / b) st))"
  using assms
  by (cases "sampleAreaLight light st")
    (simp add: areaLightContribution_def Let_def scale3_def divide3_def)

lemma sampleLight_example:
  "sampleLight exampleScene exampleCBuffer 0 = Inr (exampleLight, 1, 2891336453)"
  by (simp add: sampleLight_def rnd_0 mulFloatUInt_def floatToUInt_def uintToFloat_def
      roundToFloat_def Let_def bitLength_0 bitLength_pos exampleScene_def exampleCBuffer_def)

lemma visible_example: "visible exampleScene p1 p2"
  by (simp add: visible_def Let_def exampleScene_def Miss_def decodeIsShadow_def encodeIsShadow_def)

lemma sampleAreaLight_example:
  "\<exists>a b st'. sampleAreaLight exampleLight st = (float3 a b 1, 2, st')"
  by (cases "rnd st"; cases "rnd (snd (rnd st))")
    (simp add: sampleAreaLight_def uniformSampleTriangle_def Let_def exampleLight_def
      add3_def scale3_def sub3_def cross_def length3_def dot_def)

text \<open>In the test scene every point of the light sees the origin: the contribution is positive.\<close>

lemma areaLightContribution_example_pos:
  assumes "0 < pmf"
  shows "0 < vec_x (fst (areaLightContribution exampleScene exampleHit exampleLight pmf st))"
proof -
  obtain a b st' where s: "sampleAreaLight exampleLight st = (float3 a b 1, 2, st')"
    using sampleAreaLight_example by blast
  define l where "l = sqrt (a * a + b * b + 1)"
  have "0 \<le> a * a" and "0 \<le> b * b"
    by simp_all
  then have "0 < a * a + b * b + 1"
    by linarith
  then have l: "0 < l"
    by (simp add: l_def)
  have len: "length3 (sub3 (float3 a b 1) (pos exampleHit)) = l"
    by (simp add: length3_def sub3_def dot_def exampleHit_def l_def)
  have wi: "normalize3 (sub3 (float3 a b 1) (pos exampleHit)) = float3 (a / l) (b / l) (1 / l)"
    unfolding normalize3_def len by (simp add: sub3_def divide3_def exampleHit_def)
  have g: "max (dot (normal exampleHit) (float3 (a / l) (b / l) (1 / l))) 0
         * max (dot (lightNormal exampleLight) (neg3 (float3 (a / l) (b / l) (1 / l)))) 0 / (l * l)
         = 1 / (l * l * (l * l))"
    using l by (simp add: dot_def neg3_def exampleHit_def exampleLight_def max_def)
  have gpos: "0 < 1 / (l * l * (l * l))"
    using l by simp
  have PIpos: "0 < PI"
    by (simp add: PI_def)
  have "areaLightContribution exampleScene exampleHit exampleLight pmf st =
      (if 0 < 1 / (l * l * (l * l)) \<and> visible exampleScene (float3 a b 1) (pos exampleHit)
       then (divide3 (scale3 (mul3 (Le exampleLight)
                        (evaluateBSDF exampleHit (float3 (a / l) (b / l) (1 / l))))
                        (1 / (l * l * (l * l)))) (pmf * 2), st')
       else (float3 0 0 0, st'))"
    unfolding areaLightContribution_def s Let_def prod.case len wi g by (rule refl)
  with gpos have "vec_x (fst (areaLightContribution exampleScene exampleHit exampleLight pmf st))
      = 1 / PI * (1 / (l * l * (l * l))) / (pmf * 2)"
    by (simp add: visible_example divide3_def scale3_def mul3_def evaluateBSDF_def
        exampleHit_def exampleLight_def)
  also have "0 < \<dots>"
    using gpos PIpos assms by simp
  finally show ?thesis .
qed

text \<open>
  Claim C2: for every direct-lighting query that takes the area-light branch when no
  environment map exists, the light is chosen uniformly among the N area lights and the
  returned contribution \<open>light.Le * BSDF.evaluate * geometryTerm\<close> is divided by
  \<open>pmf * pdf\<close> with \<open>pmf = 1/N\<close> (and \<open>pdf = 1/triangle_area\<close>).

  \<open>sampleLight\<close> does set \<open>pmf = 1/N\<close>. \<open>calculateDirect\<close> overwrites it with \<open>1/(N+1)\<close>
  before the division, also when no environment map exists. The theorem gives the pmf
  that \<open>sampleLight\<close> returns, the pmf the contribution is divided by, and their effect:
  the value returned is the value for \<open>pmf = 1/N\<close> scaled by \<open>(N+1)/N\<close>. In the test
  scene, with one light, the value is positive and the code returns twice it.
\<close>

theorem calculateDirect_light_pmf:
  assumes "useEnvironmentMap cb \<noteq> 1" and "nLights cb \<noteq> 0"
    and "sampleLight sc cb st = Inr (light, pmf, st')"
  shows "pmf = 1 / uintToFloat (nLights cb)
    \<and> calculateDirect sc cb hitData st =
        Inr (areaLightContribution sc hitData light (1 / uintToFloat (nLights cb + 1)) st')
    \<and> fst (areaLightContribution sc hitData light (1 / uintToFloat (nLights cb + 1)) st') =
        scale3 (fst (areaLightContribution sc hitData light pmf st'))
               (uintToFloat (nLights cb + 1) / uintToFloat (nLights cb))"
proof -
  from assms(3) have pmf: "pmf = 1 / uintToFloat (nLights cb)"
    by (auto simp: sampleLight_def Let_def split: prod.splits if_splits)
  from assms(1) have "takesEnvironmentBranch cb st = (False, st)"
    by (simp add: takesEnvironmentBranch_def)
  with assms(3) have "calculateDirect sc cb hitData st =
      Inr (areaLightContribution sc hitData light (1 / uintToFloat (nLights cb + 1)) st')"
    by (simp add: calculateDirect_def directAreaLight_def)
  moreover from uintToFloat_nonzero [OF assms(2)]
  have "fst (areaLightContribution sc hitData light (1 / uintToFloat (nLights cb + 1)) st') =
        scale3 (fst (areaLightContribution sc hitData light pmf st'))
               (uintToFloat (nLights cb + 1) / uintToFloat (nLights cb))"
    unfolding pmf by (subst areaLightContribution_scale) simp_all
  ultimately show ?thesis using pmf by simp
qed

theorem calculateDirect_light_pmf_witness:
  "useEnvironmentMap exampleCBuffer \<noteq> 1 \<and> nLights exampleCBuffer \<noteq> 0
   \<and> sampleLight exampleScene exampleCBuffer 0 = Inr (exampleLight, 1, 2891336453)
   \<and> calculateDirect exampleScene exampleCBuffer exampleHit 0 =
       Inr (areaLightContribution exampleScene exampleHit exampleLight (1 / 2) 2891336453)
   \<and> fst (areaLightContribution exampleScene exampleHit exampleLight (1 / 2) 2891336453) =
       scale3 (fst (areaLightContribution exampleScene exampleHit exampleLight 1 2891336453)) 2
   \<and> 0 < vec_x (fst (areaLightContribution exampleScene exampleHit exampleLight 1 2891336453))"
proof -
  have a: "useEnvironmentMap exampleCBuffer \<noteq> 1" and b: "nLights exampleCBuffer \<noteq> 0"
    by (simp_all add: exampleCBuffer_def)
  have two: "uintToFloat (nLights exampleCBuffer + 1) = 2" and one: "uintToFloat (nLights exampleCBuffer) = 1"
    by (simp_all add: exampleCBuffer_def uintToFloat_def roundToFloat_def Let_def
        bitLength_0 bitLength_pos)
  show ?thesis
    using a b sampleLight_example
      calculateDirect_light_pmf [OF a b sampleLight_example, of exampleHit]
      areaLightContribution_example_pos [of 1 2891336453]
    by (simp add: two one)
qed

section \<open>The miss shader (claim C3)\<close>

text \<open>
  Claim C3: for every ray that misses all geometry and is not a shadow probe,
  environment radiance (weighted by the path throughput) is added to the accumulated
  colour if and only if the bounce depth is 0 or the \<open>isSpecularBounce\<close> flag is set, and
  the path then terminates; a shadow-probe miss never changes the accumulated colour.

  On a miss \<open>TraceRay\<close> returns what the miss shader leaves, after one ray. The colour it
  leaves is the old colour plus throughput times environment exactly when the shadow
  flag is clear and the depth is 0 or the specular flag is set, and the old colour in
  every other case.
\<close>

theorem Miss_adds_environment:
  assumes "closestHit sc ray = None"
  shows "TraceRay sc cb ray payload = Inr (Miss sc ray payload)
    \<and> raySegments sc cb ray payload = 1
    \<and> colour (Miss sc ray payload) =
        (if \<not> decodeIsShadow (flags payload) \<and> (depth payload = 0 \<or> decodeIsSpecular (flags payload))
         then add3 (colour payload)
                (mul3 (pathThroughput payload) (evaluateEnvironmentMap sc (Direction ray)))
         else colour payload)"
  using assms by (simp add: TraceRay.simps raySegments.simps Miss_def)

theorem Miss_adds_environment_witness:
  "closestHit exampleScene exampleRay = None
   \<and> TraceRay exampleScene exampleCBuffer exampleRay examplePayload
       = Inr (Miss exampleScene exampleRay examplePayload)
   \<and> raySegments exampleScene exampleCBuffer exampleRay examplePayload = 1
   \<and> colour (Miss exampleScene exampleRay examplePayload) = float3 (1 / 2) (1 / 2) (1 / 2)
   \<and> colour (Miss exampleScene exampleRay (examplePayload\<lparr>depth := 1\<rparr>)) = float3 0 0 0
   \<and> colour (Miss exampleScene exampleRay (examplePayload\<lparr>depth := 1, flags := 2\<rparr>))
       = float3 (1 / 2) (1 / 2) (1 / 2)
   \<and> colour (Miss exampleScene exampleRay (examplePayload\<lparr>flags := 4\<rparr>)) = float3 0 0 0"
proof -
  have h: "closestHit exampleScene exampleRay = None"
    by (simp add: exampleScene_def)
  have env: "evaluateEnvironmentMap exampleScene wi = float3 (1 / 2) (1 / 2) (1 / 2)" for wi
    by (simp add: evaluateEnvironmentMap_def exampleScene_def Let_def)
  show ?thesis
    using h Miss_adds_environment [OF h, of exampleCBuffer examplePayload]
      Miss_adds_environment [OF h, of exampleCBuffer "examplePayload\<lparr>depth := 1\<rparr>"]
      Miss_adds_environment [OF h, of exampleCBuffer "examplePayload\<lparr>depth := 1, flags := 2\<rparr>"]
      Miss_adds_environment [OF h, of exampleCBuffer "examplePayload\<lparr>flags := 4\<rparr>"]
    by (simp add: env examplePayload_def decodeIsShadow_def decodeIsSpecular_def add3_def mul3_def)
qed

section \<open>Russian roulette (claim C4)\<close>

lemma step_sum:
  fixes c :: real
  assumes "m \<le> n"
  shows "(\<Sum>k<n. if k < m then 0 else c) = c * real (n - m)"
proof -
  have "{..<n} = {..<m} \<union> {m..<n}"
    using assms by auto
  moreover have "{..<m} \<inter> {m..<n} = {}"
    by auto
  ultimately have "(\<Sum>k<n. if k < m then 0 else c) =
      (\<Sum>k<m. if k < m then 0 else c) + (\<Sum>k=m..<n. if k < m then 0 else c)"
    by (simp add: sum.union_disjoint)
  also have "(\<Sum>k<m. if k < m then 0 else c) = 0"
    by simp
  also have "(\<Sum>k=m..<n. if k < m then 0 else c) = (\<Sum>k=m..<n. c)"
    by (intro sum.cong) auto
  finally show ?thesis
    by simp
qed

lemma step_mean:
  fixes c q :: real
  assumes "0 \<le> q" and "q \<le> 1" and "0 < n"
  shows "(\<Sum>k<n. if real k / real n < q then 0 else c) / real n
       = c * (real (n - nat \<lceil>q * real n\<rceil>) / real n)"
proof -
  define m where "m = nat \<lceil>q * real n\<rceil>"
  have "q * real n \<le> real n"
    using assms by (simp add: mult_left_le_one_le)
  then have mn: "m \<le> n"
    by (simp add: m_def nat_le_iff ceiling_le_iff)
  have "(real k / real n < q) = (k < m)" for k
  proof -
    have "(real k / real n < q) = (real k < q * real n)"
      using assms(3) by (simp add: divide_less_eq)
    also have "\<dots> = (int k < \<lceil>q * real n\<rceil>)"
      by (simp add: less_ceiling_iff)
    also have "\<dots> = (k < m)"
      by (simp add: m_def zless_nat_eq_int_zless)
    finally show ?thesis .
  qed
  then have "(\<Sum>k<n. if real k / real n < q then 0 else c) = (\<Sum>k<n. if k < m then 0 else c)"
    by simp
  with step_sum [OF mn, of c] show ?thesis
    by (simp add: m_def)
qed

lemma step_fraction_limit:
  fixes q :: real
  assumes "0 \<le> q" and "q \<le> 1"
  shows "(\<lambda>n. real (n - nat \<lceil>q * real n\<rceil>) / real n) \<longlonglongrightarrow> 1 - q"
proof (rule real_tendsto_sandwich)
  show "(\<lambda>n. 1 - q - 1 / real n) \<longlonglongrightarrow> 1 - q"
    by (rule tendsto_eq_intros lim_1_over_n tendsto_const | simp)+
  show "(\<lambda>n. 1 - q) \<longlonglongrightarrow> 1 - q"
    by simp
  have bounds: "1 - q - 1 / real n \<le> real (n - nat \<lceil>q * real n\<rceil>) / real n
      \<and> real (n - nat \<lceil>q * real n\<rceil>) / real n \<le> 1 - q" if "0 < n" for n
  proof -
    define m where "m = nat \<lceil>q * real n\<rceil>"
    have nonneg: "0 \<le> q * real n"
      using assms by simp
    have "q * real n \<le> real n"
      using assms by (simp add: mult_left_le_one_le)
    then have mn: "m \<le> n"
      by (simp add: m_def nat_le_iff ceiling_le_iff)
    have "0 \<le> \<lceil>q * real n\<rceil>"
      using nonneg by (simp add: ceiling_le_iff le_ceiling_iff)
    then have m: "real m = of_int \<lceil>q * real n\<rceil>"
      by (simp add: m_def)
    have lo: "q * real n \<le> real m" and hi: "real m \<le> q * real n + 1"
      unfolding m by simp_all
    have a: "q \<le> real m / real n"
      using lo that by (simp add: pos_le_divide_eq)
    have "(q + 1 / real n) * real n = q * real n + 1"
      using that by (simp add: distrib_right)
    with hi have b: "real m / real n \<le> q + 1 / real n"
      using that by (simp add: pos_divide_le_eq)
    have "real (n - m) / real n = 1 - real m / real n"
      using mn that by (simp add: of_nat_diff diff_divide_distrib)
    with a b show ?thesis
      unfolding m_def [symmetric] by simp
  qed
  show "\<forall>\<^sub>F n in sequentially. 1 - q - 1 / real n \<le> real (n - nat \<lceil>q * real n\<rceil>) / real n"
    using bounds by (auto intro!: eventually_sequentiallyI [of 1])
  show "\<forall>\<^sub>F n in sequentially. real (n - nat \<lceil>q * real n\<rceil>) / real n \<le> 1 - q"
    using bounds by (auto intro!: eventually_sequentiallyI [of 1])
qed

lemma step_mean_limit:
  fixes c q :: real
  assumes "0 \<le> q" and "q \<le> 1"
  shows "(\<lambda>n. (\<Sum>k<n. if real k / real n < q then 0 else c) / real n) \<longlonglongrightarrow> c * (1 - q)"
proof -
  have "(\<lambda>n. c * (real (n - nat \<lceil>q * real n\<rceil>) / real n)) \<longlonglongrightarrow> c * (1 - q)"
    by (intro tendsto_mult tendsto_const step_fraction_limit assms)
  moreover have "\<forall>\<^sub>F n in sequentially.
      c * (real (n - nat \<lceil>q * real n\<rceil>) / real n)
      = (\<Sum>k<n. if real k / real n < q then 0 else c) / real n"
    using step_mean [OF assms] by (auto intro!: eventually_sequentiallyI [of 1])
  ultimately show ?thesis
    by (rule Lim_transform_eventually)
qed

lemma ClosestHit_roulette:
  assumes "\<not> (isLight hitData \<and> (depth payload = 0 \<or> decodeIsSpecular (flags payload)))"
    and "calculateDirect sc cb hitData (rndState payload) = Inr (direct, st)"
    and "3 < depth payload" and "depth payload \<noteq> 6"
  shows "ClosestHit sc cb ray hitData payload =
     (case rouletteStep (fst (rnd st)) (depth payload) (pathThroughput payload) of
        None \<Rightarrow> Stop (payload\<lparr>colour := add3 (colour payload) (mul3 (pathThroughput payload) direct),
                              rndState := snd (rnd st)\<rparr>)
      | Some t \<Rightarrow> sampleIndirect ray hitData
                   (payload\<lparr>colour := add3 (colour payload) (mul3 (pathThroughput payload) direct),
                            rndState := snd (rnd st), pathThroughput := t\<rparr>))"
  using assms
  by (cases "rnd st") (auto simp: ClosestHit_def Let_def split: option.splits)

lemma roulette_limits:
  assumes "0 \<le> dot throughput (float3 0.2126 0.7152 0.0722)" and "d \<noteq> 7"
  shows "rouletteStep r d throughput =
      (if r < min (dot throughput (float3 0.2126 0.7152 0.0722)) 0.7 then None
       else Some (divide3 throughput (1 - min (dot throughput (float3 0.2126 0.7152 0.0722)) 0.7)))
    \<and> (\<lambda>n. vec_x (rouletteMean n d throughput)) \<longlonglongrightarrow> vec_x throughput
    \<and> (\<lambda>n. vec_y (rouletteMean n d throughput)) \<longlonglongrightarrow> vec_y throughput
    \<and> (\<lambda>n. vec_z (rouletteMean n d throughput)) \<longlonglongrightarrow> vec_z throughput"
proof -
  define q where "q = min (dot throughput (float3 0.2126 0.7152 0.0722)) 0.7"
  have q: "0 \<le> q" "q \<le> 1" "1 - q \<noteq> 0"
    using assms(1) by (simp_all add: q_def min_def)
  have step: "rouletteStep r d throughput = (if r < q then None else Some (divide3 throughput (1 - q)))" for r
    using assms(2) by (simp add: rouletteStep_def q_def Let_def)
  have surv: "rouletteSurvivor r d throughput =
      (if r < q then float3 0 0 0 else divide3 throughput (1 - q))" for r
    by (simp add: rouletteSurvivor_def step)
  have x: "vec_x (rouletteMean n d throughput) =
      (\<Sum>k<n. if real k / real n < q then 0 else vec_x throughput / (1 - q)) / real n" for n
    by (simp add: rouletteMean_def surv divide3_def if_distrib [of vec_x] cong: if_cong)
  have y: "vec_y (rouletteMean n d throughput) =
      (\<Sum>k<n. if real k / real n < q then 0 else vec_y throughput / (1 - q)) / real n" for n
    by (simp add: rouletteMean_def surv divide3_def if_distrib [of vec_y] cong: if_cong)
  have z: "vec_z (rouletteMean n d throughput) =
      (\<Sum>k<n. if real k / real n < q then 0 else vec_z throughput / (1 - q)) / real n" for n
    by (simp add: rouletteMean_def surv divide3_def if_distrib [of vec_z] cong: if_cong)
  have cancel: "c / (1 - q) * (1 - q) = c" for c
    using q(3) by simp
  from step_mean_limit [OF q(1,2), of "vec_x throughput / (1 - q)"]
  have "(\<lambda>n. vec_x (rouletteMean n d throughput)) \<longlonglongrightarrow> vec_x throughput"
    by (simp only: x cancel)
  moreover from step_mean_limit [OF q(1,2), of "vec_y throughput / (1 - q)"]
  have "(\<lambda>n. vec_y (rouletteMean n d throughput)) \<longlonglongrightarrow> vec_y throughput"
    by (simp only: y cancel)
  moreover from step_mean_limit [OF q(1,2), of "vec_z throughput / (1 - q)"]
  have "(\<lambda>n. vec_z (rouletteMean n d throughput)) \<longlonglongrightarrow> vec_z throughput"
    by (simp only: z cancel)
  ultimately show ?thesis
    using step [of r] by (simp add: q_def)
qed

text \<open>
  Claim C4: for every bounce at depth \<open>d > 3\<close> that reaches the Russian-roulette step with
  throughput \<open>T\<close>, the integrator computes \<open>q = min(dot(T, {0.2126, 0.7152, 0.0722}), 0.7)\<close>,
  draws \<open>u\<close> from the sampler, terminates the path if \<open>u < q\<close>, and otherwise rescales the
  throughput by \<open>1/(1-q)\<close>; the expectation over \<open>u\<close> of the surviving rescaled throughput
  equals \<open>T\<close> (the estimator is unbiased).

  The bounce reaches the roulette when the hit is not an emissive surface that ends the
  path, the direct lighting has returned, and the depth is above 3 and not 6 (at depth 6
  the shader has returned before). On a path the depth is at most 6, so these are the
  depths 4 and 5; the theorem leaves out depth 7 only, where the extra test of the
  roulette line returns for every draw. The throughput is that of the data model, with
  a luminance that is not negative. Then \<open>ClosestHit\<close> draws once from the sampler state the direct
  lighting left and does what \<open>rouletteStep\<close> says for that draw; \<open>rouletteStep\<close> is the
  rule of the claim; and the mean of what survives, over \<open>n\<close> equally spaced draws,
  tends to \<open>T\<close> in each component as \<open>n\<close> grows.
\<close>

theorem russian_roulette_unbiased:
  assumes "\<not> (isLight hitData \<and> (depth payload = 0 \<or> decodeIsSpecular (flags payload)))"
    and "calculateDirect sc cb hitData (rndState payload) = Inr (direct, st)"
    and "3 < depth payload" and "depth payload \<noteq> 6" and "depth payload \<noteq> 7"
    and "0 \<le> dot (pathThroughput payload) (float3 0.2126 0.7152 0.0722)"
  shows "ClosestHit sc cb ray hitData payload =
     (case rouletteStep (fst (rnd st)) (depth payload) (pathThroughput payload) of
        None \<Rightarrow> Stop (payload\<lparr>colour := add3 (colour payload) (mul3 (pathThroughput payload) direct),
                              rndState := snd (rnd st)\<rparr>)
      | Some t \<Rightarrow> sampleIndirect ray hitData
                   (payload\<lparr>colour := add3 (colour payload) (mul3 (pathThroughput payload) direct),
                            rndState := snd (rnd st), pathThroughput := t\<rparr>))
    \<and> rouletteStep r (depth payload) (pathThroughput payload) =
       (if r < min (dot (pathThroughput payload) (float3 0.2126 0.7152 0.0722)) 0.7 then None
        else Some (divide3 (pathThroughput payload)
                     (1 - min (dot (pathThroughput payload) (float3 0.2126 0.7152 0.0722)) 0.7)))
    \<and> (\<lambda>n. vec_x (rouletteMean n (depth payload) (pathThroughput payload)))
         \<longlonglongrightarrow> vec_x (pathThroughput payload)
    \<and> (\<lambda>n. vec_y (rouletteMean n (depth payload) (pathThroughput payload)))
         \<longlonglongrightarrow> vec_y (pathThroughput payload)
    \<and> (\<lambda>n. vec_z (rouletteMean n (depth payload) (pathThroughput payload)))
         \<longlonglongrightarrow> vec_z (pathThroughput payload)"
  using ClosestHit_roulette [OF assms(1,2,3,4)] roulette_limits [OF assms(6,5)]
  by simp

lemma areaLightContribution_state:
  "snd (areaLightContribution sc hitData light pmf st) = snd (rnd (snd (rnd st)))"
  by (cases "rnd st"; cases "rnd (snd (rnd st))")
    (simp add: areaLightContribution_def sampleAreaLight_def Let_def split: prod.splits)

lemma rnd_chain:
  "snd (rnd 2891336453) = 1192405134"
  "snd (rnd 1192405134) = 568162667"
  "rnd 568162667 = (1462727680 / 4294967296, 878960812)"
  by (simp_all add: rnd_def uintToFloat_def roundToFloat_def Let_def bitLength_0 bitLength_pos)

lemma calculateDirect_example:
  "calculateDirect exampleScene exampleCBuffer exampleHit 0 =
     Inr (fst (areaLightContribution exampleScene exampleHit exampleLight (1 / 2) 2891336453), 568162667)"
proof -
  have two: "uintToFloat (nLights exampleCBuffer + 1) = 2"
    by (simp add: exampleCBuffer_def uintToFloat_def roundToFloat_def Let_def bitLength_0 bitLength_pos)
  have "takesEnvironmentBranch exampleCBuffer 0 = (False, 0)"
    by (simp add: takesEnvironmentBranch_def exampleCBuffer_def)
  then have "calculateDirect exampleScene exampleCBuffer exampleHit 0 =
      directAreaLight exampleScene exampleCBuffer exampleHit 0"
    by (simp add: calculateDirect_def)
  also have "\<dots> = Inr (areaLightContribution exampleScene exampleHit exampleLight (1 / 2) 2891336453)"
    by (simp add: directAreaLight_def sampleLight_example two)
  also have "areaLightContribution exampleScene exampleHit exampleLight (1 / 2) 2891336453 =
      (fst (areaLightContribution exampleScene exampleHit exampleLight (1 / 2) 2891336453), 568162667)"
    by (simp add: prod_eq_iff areaLightContribution_state rnd_chain)
  finally show ?thesis .
qed

theorem russian_roulette_unbiased_witness:
  "ClosestHit exampleScene exampleCBuffer exampleRay exampleHit (examplePayload\<lparr>depth := 4\<rparr>) =
     Stop (examplePayload\<lparr>depth := 4,
        colour := add3 (float3 0 0 0) (mul3 (float3 1 1 1)
          (fst (areaLightContribution exampleScene exampleHit exampleLight (1 / 2) 2891336453))),
        rndState := 878960812\<rparr>)
   \<and> rouletteStep (1 / 2) 4 (float3 1 1 1) = None
   \<and> rouletteStep (3 / 4) 4 (float3 1 1 1) = Some (float3 (10 / 3) (10 / 3) (10 / 3))
   \<and> (\<lambda>n. vec_x (rouletteMean n 4 (float3 1 1 1))) \<longlonglongrightarrow> 1
   \<and> (\<lambda>n. vec_y (rouletteMean n 4 (float3 1 1 1))) \<longlonglongrightarrow> 1
   \<and> (\<lambda>n. vec_z (rouletteMean n 4 (float3 1 1 1))) \<longlonglongrightarrow> 1"
proof -
  define payload where "payload = examplePayload\<lparr>depth := 4\<rparr>"
  have fields: "depth payload = 4" "flags payload = 0" "rndState payload = 0"
    "colour payload = float3 0 0 0" "pathThroughput payload = float3 1 1 1"
    by (simp_all add: payload_def examplePayload_def)
  have a: "\<not> (isLight exampleHit \<and> (depth payload = 0 \<or> decodeIsSpecular (flags payload)))"
    by (simp add: isLight_def exampleHit_def)
  have b: "calculateDirect exampleScene exampleCBuffer exampleHit (rndState payload) =
     Inr (fst (areaLightContribution exampleScene exampleHit exampleLight (1 / 2) 2891336453), 568162667)"
    by (simp add: fields calculateDirect_example)
  have c: "3 < depth payload" and d: "depth payload \<noteq> 6" "depth payload \<noteq> 7"
    by (simp_all add: fields)
  have e: "0 \<le> dot (pathThroughput payload) (float3 0.2126 0.7152 0.0722)"
    by (simp add: fields dot_def)
  note main = russian_roulette_unbiased [OF a b c d e, of exampleRay "3 / 4", unfolded fields]
  have kill: "rouletteStep (fst (rnd 568162667)) 4 (float3 1 1 1) = None"
    by (simp add: rnd_chain rouletteStep_def dot_def)
  have "ClosestHit exampleScene exampleCBuffer exampleRay exampleHit payload =
     Stop (payload\<lparr>colour := add3 (float3 0 0 0) (mul3 (float3 1 1 1)
          (fst (areaLightContribution exampleScene exampleHit exampleLight (1 / 2) 2891336453))),
        rndState := 878960812\<rparr>)"
    using main [THEN conjunct1] unfolding kill by (simp add: rnd_chain)
  moreover have "rouletteStep (1 / 2) 4 (float3 1 1 1) = None"
    by (simp add: rouletteStep_def dot_def)
  moreover have "rouletteStep (3 / 4) 4 (float3 1 1 1) = Some (float3 (10 / 3) (10 / 3) (10 / 3))"
    by (simp add: rouletteStep_def dot_def divide3_def)
  moreover have "(\<lambda>n. vec_x (rouletteMean n 4 (float3 1 1 1))) \<longlonglongrightarrow> 1"
    using main [THEN conjunct2, THEN conjunct2, THEN conjunct1] by simp
  moreover have "(\<lambda>n. vec_y (rouletteMean n 4 (float3 1 1 1))) \<longlonglongrightarrow> 1"
    using main [THEN conjunct2, THEN conjunct2, THEN conjunct2, THEN conjunct1] by simp
  moreover have "(\<lambda>n. vec_z (rouletteMean n 4 (float3 1 1 1))) \<longlonglongrightarrow> 1"
    using main [THEN conjunct2, THEN conjunct2, THEN conjunct2, THEN conjunct2] by simp
  ultimately show ?thesis
    by (simp add: payload_def)
qed

section \<open>The depth bound (claim C5)\<close>

lemma ClosestHit_Trace_depth:
  assumes "ClosestHit sc cb ray hitData payload = Trace ray' payload'"
  shows "depth payload \<noteq> 6 \<and> depth payload \<noteq> 7 \<and> depth payload' = depth payload + 1"
  using assms
  by (auto simp: ClosestHit_def sampleIndirect_def rouletteStep_def Let_def
      split: if_splits sum.splits prod.splits option.splits)

lemma depth_step:
  fixes d :: uint
  assumes "d \<le> 6" and "d \<noteq> 6"
  shows "d + 1 \<le> 6 \<and> unat (d + 1) = Suc (unat d)"
proof -
  from assms(1) have le: "unat d \<le> 6"
    by (simp add: word_le_nat_alt)
  have "unat d \<noteq> 6"
  proof
    assume "unat d = 6"
    then have "word_of_nat (unat d) = (6 :: uint)" by simp
    with assms(2) show False by simp
  qed
  with le have "unat d < 6" by simp
  then show ?thesis
    by (simp add: word_le_nat_alt unat_word_ariths)
qed

lemma TraceRay_depth_bound:
  "depth payload \<le> 6 \<Longrightarrow>
     (case TraceRay sc cb ray payload of Inl f \<Rightarrow> True | Inr payload' \<Rightarrow> depth payload' \<le> 6)"
proof (induction sc cb ray payload rule: TraceRay.induct)
  case (1 sc cb ray payload)
  show ?case
  proof (cases "closestHit sc ray")
    case None
    with 1(2) show ?thesis
      by (simp add: TraceRay.simps Miss_def)
  next
    case (Some hitData)
    show ?thesis
    proof (cases "ClosestHit sc cb ray hitData payload")
      case (Stop p)
      then have "depth p = depth payload"
        by (auto simp: ClosestHit_def sampleIndirect_def Let_def
            split: if_splits sum.splits prod.splits option.splits)
      with Some Stop 1(2) show ?thesis
        by (simp add: TraceRay.simps)
    next
      case (Trace ray' p)
      from ClosestHit_Trace_depth [OF Trace] 1(2) depth_step [of "depth payload"]
      have "depth p \<le> 6" by simp
      with 1(1) [OF Some Trace] Some Trace show ?thesis
        by (simp add: TraceRay.simps)
    next
      case (Fault f)
      with Some show ?thesis
        by (simp add: TraceRay.simps)
    qed
  qed
qed

lemma raySegments_bound:
  "depth payload \<le> 6 \<Longrightarrow> raySegments sc cb ray payload + unat (depth payload) \<le> 7"
proof (induction sc cb ray payload rule: raySegments.induct)
  case (1 sc cb ray payload)
  from 1(2) have le: "unat (depth payload) \<le> 6"
    by (simp add: word_le_nat_alt)
  show ?case
  proof (cases "closestHit sc ray")
    case None
    with le show ?thesis
      by (simp add: raySegments.simps)
  next
    case (Some hitData)
    show ?thesis
    proof (cases "ClosestHit sc cb ray hitData payload")
      case (Stop p)
      with Some le show ?thesis
        by (simp add: raySegments.simps)
    next
      case (Trace ray' p)
      from ClosestHit_Trace_depth [OF Trace] 1(2) depth_step [of "depth payload"]
      have d: "depth p \<le> 6" "unat (depth p) = Suc (unat (depth payload))" by simp_all
      from 1(1) [OF Some Trace d(1)] d(2) Some Trace show ?thesis
        by (simp add: raySegments.simps)
    next
      case (Fault f)
      with Some le show ?thesis
        by (simp add: raySegments.simps)
    qed
  qed
qed

text \<open>
  Between the two mirrors a path started downwards bounces until the depth bound stops
  it: the direct lighting of a mirror is zero, the roulette at depths 4 and 5 lets the
  path live for the numbers drawn from sampler state 0, and the shader returns at
  depth 6, after 7 rays.
\<close>

lemma calculateDirect_mirror:
  assumes "bsdf hitData = 3" and "useEnvironmentMap cb = 1"
  shows "calculateDirect sc cb hitData st = Inr (float3 0 0 0, snd (rnd (snd (rnd (snd (rnd st))))))"
proof -
  have "evaluateBSDF hitData wi = float3 0 0 0" for wi
    using assms(1) by (simp add: evaluateBSDF_def)
  then have "directEnvironment sc cb hitData st' = (float3 0 0 0, snd (rnd (snd (rnd st'))))" for st'
    by (cases "rnd st'"; cases "rnd (snd (rnd st'))")
      (simp add: directEnvironment_def Let_def mul3_def scale3_def divide3_def)
  with assms(2) show ?thesis
    by (simp add: calculateDirect_def takesEnvironmentBranch_eq)
qed

lemma rnd_path:
  "rnd 0 = (129708000 / 4294967296, 2891336453)"
  "rnd 2891336453 = (582399680 / 4294967296, 1192405134)"
  "rnd 1192405134 = (1006035136 / 4294967296, 568162667)"
  "rnd 568162667 = (1462727680 / 4294967296, 878960812)"
  "rnd 878960812 = (2264681984 / 4294967296, 3598456993)"
  "rnd 3598456993 = (879071616 / 4294967296, 3109587930)"
  "rnd 3109587930 = (1752778368 / 4294967296, 457671207)"
  "rnd 457671207 = (3722953984 / 4294967296, 564359576)"
  "rnd 564359576 = (1752290816 / 4294967296, 1466123133)"
  "rnd 1466123133 = (2484781312 / 4294967296, 2469272934)"
  "rnd 2469272934 = (2422741248 / 4294967296, 2009562659)"
  "rnd 2009562659 = (398376640 / 4294967296, 200982212)"
  "rnd 200982212 = (967358080 / 4294967296, 789858201)"
  "rnd 789858201 = (1047811328 / 4294967296, 2218199346)"
  "rnd 2218199346 = (3536527616 / 4294967296, 2466908511)"
  "rnd 2466908511 = (2833639936 / 4294967296, 4177007664)"
  "rnd 4177007664 = (1650311808 / 4294967296, 3363758325)"
  "rnd 3363758325 = (2352301312 / 4294967296, 3495377726)"
  "rnd 3495377726 = (2354104064 / 4294967296, 4159242203)"
  "rnd 4159242203 = (2288378112 / 4294967296, 3521641948)"
  "rnd 3521641948 = (1627022848 / 4294967296, 2211842961)"
  "rnd 2211842961 = (98963272 / 4294967296, 3871268746)"
  "rnd 3871268746 = (4119731456 / 4294967296, 3219619223)"
  by (simp_all add: rnd_def uintToFloat_def roundToFloat_def Let_def bitLength_0 bitLength_pos)

lemmas mirror_eval = mirrorScene_def mirrorCBuffer_def floorMirror_def ceilingMirror_def
  exampleRay_def examplePayload_def ClosestHit_def isLight_def calculateDirect_mirror rnd_path
  sampleIndirect_def sampleBSDF_def rouletteStep_def Let_def
  mul_vec_mat_def transpose3x3_def neg3_def scale3_def add3_def mul3_def normalize3_def divide3_def
  length3_def dot_def encodeIsSpecular_def clearSpecular_def decodeIsSpecular_def

lemma mirror_path:
  "TraceRay mirrorScene mirrorCBuffer exampleRay examplePayload =
     Inr \<lparr>depth = 6, flags = 2, rndState = 3219619223, colour = float3 0 0 0,
          pathThroughput = float3 (1 / 999890) (1 / 999890) (1 / 999890)\<rparr>"
  by (simp add: TraceRay.simps mirror_eval)

lemma mirror_segments:
  "raySegments mirrorScene mirrorCBuffer exampleRay examplePayload = 7"
  by (simp add: raySegments.simps mirror_eval)

text \<open>
  Claim C5: for every path, the closest-hit handler returns without tracing a further
  ray whenever the bounce depth equals 6, so the path's depth counter never exceeds 6
  and every path reaches a terminal state after a bounded number of ray segments; the
  secondary depth-7 fallback check inside the Russian-roulette block also forces
  termination.

  \<open>TraceRay\<close> is a total function: its recursion is well founded for every scene and
  every payload, so every path ends. At depth 6, and at depth 7, \<open>ClosestHit\<close> traces no
  ray; the roulette at depth 7 returns for every draw. The depth only grows along a
  path, by one per traced ray, so the depth the path ends with is its largest: from a
  depth of at most 6 it stays at most 6, and the rays traced are at most 7 minus the
  starting depth. A path that \<open>RayGeneration\<close> starts has depth 0 and traces at most 7
  rays. (Depth 7 is never reached by such a path.)
\<close>

theorem depth_bound:
  "(depth payload = 6 \<or> depth payload = 7 \<longrightarrow> \<not> is_Trace (ClosestHit sc cb ray hitData payload))
   \<and> rouletteStep r 7 throughput = None
   \<and> (depth payload \<le> 6 \<longrightarrow>
        (case TraceRay sc cb ray payload of Inl f \<Rightarrow> True | Inr payload' \<Rightarrow> depth payload' \<le> 6)
        \<and> raySegments sc cb ray payload + unat (depth payload) \<le> 7)
   \<and> (case TraceRay sc cb ray (primaryPayload cb idx) of
         Inl f \<Rightarrow> True | Inr payload' \<Rightarrow> depth payload' \<le> 6)
   \<and> raySegments sc cb ray (primaryPayload cb idx) \<le> 7"
proof -
  have a: "\<not> is_Trace (ClosestHit sc cb ray hitData payload)"
    if "depth payload = 6 \<or> depth payload = 7"
  proof
    assume "is_Trace (ClosestHit sc cb ray hitData payload)"
    then obtain ray' p where "ClosestHit sc cb ray hitData payload = Trace ray' p"
      by (cases "ClosestHit sc cb ray hitData payload") simp_all
    from ClosestHit_Trace_depth [OF this] that show False by simp
  qed
  have b: "rouletteStep r 7 throughput = None"
    by (simp add: rouletteStep_def)
  have p0: "depth (primaryPayload cb idx) \<le> 6" "unat (depth (primaryPayload cb idx)) = 0"
    by (simp_all add: primaryPayload_def)
  from TraceRay_depth_bound [OF p0(1)] raySegments_bound [OF p0(1), of sc cb ray] p0(2)
  have "(case TraceRay sc cb ray (primaryPayload cb idx) of
           Inl f \<Rightarrow> True | Inr payload' \<Rightarrow> depth payload' \<le> 6)
   \<and> raySegments sc cb ray (primaryPayload cb idx) \<le> 7"
    by simp
  with a b TraceRay_depth_bound raySegments_bound show ?thesis
    by blast
qed

theorem depth_bound_witness:
  "\<not> is_Trace (ClosestHit mirrorScene mirrorCBuffer exampleRay floorMirror (examplePayload\<lparr>depth := 6\<rparr>))
   \<and> \<not> is_Trace (ClosestHit mirrorScene mirrorCBuffer exampleRay floorMirror (examplePayload\<lparr>depth := 7\<rparr>))
   \<and> rouletteStep 1 7 (float3 0 0 0) = None
   \<and> TraceRay mirrorScene mirrorCBuffer exampleRay examplePayload =
       Inr \<lparr>depth = 6, flags = 2, rndState = 3219619223, colour = float3 0 0 0,
            pathThroughput = float3 (1 / 999890) (1 / 999890) (1 / 999890)\<rparr>
   \<and> raySegments mirrorScene mirrorCBuffer exampleRay examplePayload = 7
   \<and> raySegments mirrorScene mirrorCBuffer exampleRay (primaryPayload mirrorCBuffer (0, 0)) \<le> 7"
  using depth_bound [of "examplePayload\<lparr>depth := 6\<rparr>" mirrorScene mirrorCBuffer exampleRay
      floorMirror 1 "float3 0 0 0" "(0, 0)"]
    depth_bound [of "examplePayload\<lparr>depth := 7\<rparr>" mirrorScene mirrorCBuffer exampleRay
      floorMirror 1 "float3 0 0 0" "(0, 0)"]
    depth_bound [of examplePayload mirrorScene mirrorCBuffer exampleRay
      floorMirror 1 "float3 0 0 0" "(0, 0)"]
    mirror_path mirror_segments
  by (simp add: examplePayload_def)

section \<open>A sample with no positive pdf (claim C6)\<close>

lemma ClosestHit_Trace_sample:
  assumes "ClosestHit sc cb ray hitData payload = Trace ray' payload'"
  shows "\<exists>q wi indirect pdf isSpecular st.
           sampleIndirect ray hitData q = Trace ray' payload'
           \<and> sampleBSDF ray hitData (rndState q) = Inr (wi, indirect, pdf, isSpecular, st) \<and> 0 < pdf"
proof -
  from assms obtain q where q: "sampleIndirect ray hitData q = Trace ray' payload'"
    by (auto simp: ClosestHit_def Let_def split: if_splits sum.splits prod.splits option.splits)
  then obtain wi indirect pdf isSpecular st where
    "sampleBSDF ray hitData (rndState q) = Inr (wi, indirect, pdf, isSpecular, st)" "0 < pdf"
    by (auto simp: sampleIndirect_def Let_def split: sum.splits prod.splits if_splits)
  with q show ?thesis by blast
qed

lemma sampleBSDF_emissive:
  "bsdf hitData = 1 \<Longrightarrow> \<exists>wi. sampleBSDF ray hitData st = Inr (wi, float3 0 0 0, 0, False, st)"
  by (simp add: sampleBSDF_def Let_def)

lemma ClosestHit_reaches_sample:
  assumes "\<not> (isLight hitData \<and> (depth payload = 0 \<or> decodeIsSpecular (flags payload)))"
    and "calculateDirect sc cb hitData (rndState payload) = Inr (direct, st)"
    and "depth payload \<noteq> 6"
    and "if 3 < depth payload
         then rouletteStep (fst (rnd st)) (depth payload) (pathThroughput payload) = Some t
              \<and> st1 = snd (rnd st)
         else t = pathThroughput payload \<and> st1 = st"
  shows "ClosestHit sc cb ray hitData payload =
     sampleIndirect ray hitData
       (payload\<lparr>colour := add3 (colour payload) (mul3 (pathThroughput payload) direct),
                rndState := st1, pathThroughput := t\<rparr>)"
proof (cases "3 < depth payload")
  case True
  with assms show ?thesis
    by (cases "rnd st") (auto simp: ClosestHit_def Let_def)
next
  case False
  with assms have "t = pathThroughput payload" "st1 = st"
    by simp_all
  moreover have "payload\<lparr>colour := c, rndState := st, pathThroughput := pathThroughput payload\<rparr>
      = payload\<lparr>colour := c, rndState := st\<rparr>" for c
    by simp
  ultimately show ?thesis
    using assms(1,2,3) False by (auto simp: ClosestHit_def Let_def)
qed

lemma ClosestHit_Trace_reaches:
  assumes "ClosestHit sc cb ray hitData payload = Trace ray' payload'"
  shows "\<exists>direct st t st1.
      \<not> (isLight hitData \<and> (depth payload = 0 \<or> decodeIsSpecular (flags payload)))
      \<and> calculateDirect sc cb hitData (rndState payload) = Inr (direct, st)
      \<and> depth payload \<noteq> 6
      \<and> (if 3 < depth payload
           then rouletteStep (fst (rnd st)) (depth payload) (pathThroughput payload) = Some t
                \<and> st1 = snd (rnd st)
           else t = pathThroughput payload \<and> st1 = st)"
  using assms
  by (cases "calculateDirect sc cb hitData (rndState payload)")
    (auto simp: ClosestHit_def Let_def split: if_splits prod.splits option.splits)

text \<open>
  Claim C6: for every hit where BSDF sampling returns \<open>pdf \<le> 0\<close> (in particular, sampling
  an emissive surface, which returns zero reflected value and zero pdf), the integrator
  terminates the path silently without tracing a further ray and without dividing by
  the pdf, leaving the accumulated colour as a finite value rather than raising an
  error.

  \<open>ClosestHit\<close> reaches the call of \<open>sampleBSDF\<close> when the hit is not an emissive surface
  that ends the path, the direct lighting has returned \<open>direct\<close> and the sampler state
  \<open>st\<close>, the depth is not 6, and, above depth 3, the roulette has let the path live with
  the throughput \<open>t\<close>; the state \<open>st1\<close> handed to \<open>sampleBSDF\<close> is \<open>st\<close>, advanced by the
  draw of the roulette when there was one. If the sample drawn there has \<open>pdf \<le> 0\<close>,
  \<open>ClosestHit\<close> returns: it traces no ray, and the payload it leaves has the colour with
  the direct lighting added, the throughput \<open>t\<close> not divided by anything, and the depth
  and the flags it came with. On an emissive surface the sample is the zero colour with
  pdf 0, whatever the sampler state, and \<open>ClosestHit\<close> never traces a ray. Conversely,
  when \<open>ClosestHit\<close> traces a ray, it has reached the sample in the way described, the
  sample drawn at that state has a positive pdf, and the throughput handed over is the
  one divided by that pdf. (In the model every float is a real number, so every colour
  is finite; the claim's "finite" is the absence of the division.)
\<close>

theorem nonpositive_pdf_stops:
  "(\<not> (isLight hitData \<and> (depth payload = 0 \<or> decodeIsSpecular (flags payload)))
     \<and> calculateDirect sc cb hitData (rndState payload) = Inr (direct, st)
     \<and> depth payload \<noteq> 6
     \<and> (if 3 < depth payload
          then rouletteStep (fst (rnd st)) (depth payload) (pathThroughput payload) = Some t
               \<and> st1 = snd (rnd st)
          else t = pathThroughput payload \<and> st1 = st)
     \<and> sampleBSDF ray hitData st1 = Inr (wi, indirect, pdf, isSpecular, st2)
     \<and> pdf \<le> 0
     \<longrightarrow> ClosestHit sc cb ray hitData payload =
           Stop (payload\<lparr>colour := add3 (colour payload) (mul3 (pathThroughput payload) direct),
                         rndState := st2, pathThroughput := t\<rparr>))
   \<and> (bsdf hitData = 1
     \<longrightarrow> (\<exists>wi'. sampleBSDF ray hitData s = Inr (wi', float3 0 0 0, 0, False, s))
         \<and> \<not> is_Trace (ClosestHit sc cb ray hitData payload))
   \<and> (ClosestHit sc cb ray hitData payload = Trace ray' payload'
     \<longrightarrow> (\<exists>direct' st' t' st1' wi' indirect' pdf' isSpecular' st2'.
           \<not> (isLight hitData \<and> (depth payload = 0 \<or> decodeIsSpecular (flags payload)))
           \<and> calculateDirect sc cb hitData (rndState payload) = Inr (direct', st')
           \<and> depth payload \<noteq> 6
           \<and> (if 3 < depth payload
                then rouletteStep (fst (rnd st')) (depth payload) (pathThroughput payload) = Some t'
                     \<and> st1' = snd (rnd st')
                else t' = pathThroughput payload \<and> st1' = st')
           \<and> sampleBSDF ray hitData st1' = Inr (wi', indirect', pdf', isSpecular', st2')
           \<and> 0 < pdf'
           \<and> pathThroughput payload' = divide3 (scale3 (mul3 t' indirect') \<bar>dot wi' (normal hitData)\<bar>) pdf'
           \<and> colour payload' = add3 (colour payload) (mul3 (pathThroughput payload) direct')))"
proof (intro conjI impI)
  assume a: "\<not> (isLight hitData \<and> (depth payload = 0 \<or> decodeIsSpecular (flags payload)))
     \<and> calculateDirect sc cb hitData (rndState payload) = Inr (direct, st)
     \<and> depth payload \<noteq> 6
     \<and> (if 3 < depth payload
          then rouletteStep (fst (rnd st)) (depth payload) (pathThroughput payload) = Some t
               \<and> st1 = snd (rnd st)
          else t = pathThroughput payload \<and> st1 = st)
     \<and> sampleBSDF ray hitData st1 = Inr (wi, indirect, pdf, isSpecular, st2)
     \<and> pdf \<le> 0"
  then have r: "\<not> (isLight hitData \<and> (depth payload = 0 \<or> decodeIsSpecular (flags payload)))"
      "calculateDirect sc cb hitData (rndState payload) = Inr (direct, st)"
      "depth payload \<noteq> 6"
      "if 3 < depth payload
       then rouletteStep (fst (rnd st)) (depth payload) (pathThroughput payload) = Some t
            \<and> st1 = snd (rnd st)
       else t = pathThroughput payload \<and> st1 = st"
    by blast+
  have "ClosestHit sc cb ray hitData payload =
     sampleIndirect ray hitData
       (payload\<lparr>colour := add3 (colour payload) (mul3 (pathThroughput payload) direct),
                rndState := st1, pathThroughput := t\<rparr>)"
    by (rule ClosestHit_reaches_sample [OF r])
  with a show "ClosestHit sc cb ray hitData payload =
           Stop (payload\<lparr>colour := add3 (colour payload) (mul3 (pathThroughput payload) direct),
                         rndState := st2, pathThroughput := t\<rparr>)"
    by (simp add: sampleIndirect_def)
next
  assume e: "bsdf hitData = 1"
  from sampleBSDF_emissive [OF e]
  show "\<exists>wi'. sampleBSDF ray hitData s = Inr (wi', float3 0 0 0, 0, False, s)" .
  show "\<not> is_Trace (ClosestHit sc cb ray hitData payload)"
  proof
    assume "is_Trace (ClosestHit sc cb ray hitData payload)"
    then obtain r p where "ClosestHit sc cb ray hitData payload = Trace r p"
      by (cases "ClosestHit sc cb ray hitData payload") simp_all
    from ClosestHit_Trace_sample [OF this] obtain q' :: Payload and wi' indirect' pdf' isSpecular' st' where
      "sampleBSDF ray hitData (rndState q') = Inr (wi', indirect', pdf', isSpecular', st')" "0 < pdf'"
      by auto
    with sampleBSDF_emissive [OF e, of ray "rndState q'"] show False by auto
  qed
next
  assume tr: "ClosestHit sc cb ray hitData payload = Trace ray' payload'"
  from ClosestHit_Trace_reaches [OF tr] obtain direct' st' t' st1' where
    r: "\<not> (isLight hitData \<and> (depth payload = 0 \<or> decodeIsSpecular (flags payload)))"
      "calculateDirect sc cb hitData (rndState payload) = Inr (direct', st')"
      "depth payload \<noteq> 6"
      "if 3 < depth payload
       then rouletteStep (fst (rnd st')) (depth payload) (pathThroughput payload) = Some t'
            \<and> st1' = snd (rnd st')
       else t' = pathThroughput payload \<and> st1' = st'"
    by blast
  from ClosestHit_reaches_sample [OF r] tr
  have s: "sampleIndirect ray hitData
       (payload\<lparr>colour := add3 (colour payload) (mul3 (pathThroughput payload) direct'),
                rndState := st1', pathThroughput := t'\<rparr>) = Trace ray' payload'"
    by simp
  then obtain wi' indirect' pdf' isSpecular' st2' where
    "sampleBSDF ray hitData st1' = Inr (wi', indirect', pdf', isSpecular', st2')" "0 < pdf'"
    "pathThroughput payload' = divide3 (scale3 (mul3 t' indirect') \<bar>dot wi' (normal hitData)\<bar>) pdf'"
    "colour payload' = add3 (colour payload) (mul3 (pathThroughput payload) direct')"
    by (auto simp: sampleIndirect_def Let_def split: sum.splits prod.splits if_splits)
  with r show "\<exists>direct' st' t' st1' wi' indirect' pdf' isSpecular' st2'.
           \<not> (isLight hitData \<and> (depth payload = 0 \<or> decodeIsSpecular (flags payload)))
           \<and> calculateDirect sc cb hitData (rndState payload) = Inr (direct', st')
           \<and> depth payload \<noteq> 6
           \<and> (if 3 < depth payload
                then rouletteStep (fst (rnd st')) (depth payload) (pathThroughput payload) = Some t'
                     \<and> st1' = snd (rnd st')
                else t' = pathThroughput payload \<and> st1' = st')
           \<and> sampleBSDF ray hitData st1' = Inr (wi', indirect', pdf', isSpecular', st2')
           \<and> 0 < pdf'
           \<and> pathThroughput payload' = divide3 (scale3 (mul3 t' indirect') \<bar>dot wi' (normal hitData)\<bar>) pdf'
           \<and> colour payload' = add3 (colour payload) (mul3 (pathThroughput payload) direct')"
    by blast
qed

lemma rnd_zero_draw:
  "rnd 1466041236 = (657657280 / 4294967296, 2125766313)"
  "snd (rnd 2125766313) = 3224176514"
  "snd (rnd 3224176514) = 449710063"
  "rnd 449710063 = (0, 0)"
  by (simp_all add: rnd_def uintToFloat_def roundToFloat_def Let_def bitLength_0 bitLength_pos)

lemma sampleLight_example_zero_draw:
  "sampleLight exampleScene exampleCBuffer 1466041236 = Inr (exampleLight, 1, 2125766313)"
  by (simp add: sampleLight_def rnd_zero_draw mulFloatUInt_def floatToUInt_def uintToFloat_def
      roundToFloat_def Let_def bitLength_0 bitLength_pos exampleScene_def exampleCBuffer_def)

lemma calculateDirect_example_state:
  assumes "sampleLight exampleScene exampleCBuffer st = Inr (exampleLight, 1, st1)"
  shows "calculateDirect exampleScene exampleCBuffer hitData st =
     Inr (fst (areaLightContribution exampleScene hitData exampleLight (1 / 2) st1),
          snd (rnd (snd (rnd st1))))"
proof -
  have two: "uintToFloat (nLights exampleCBuffer + 1) = 2"
    by (simp add: exampleCBuffer_def uintToFloat_def roundToFloat_def Let_def bitLength_0 bitLength_pos)
  have "takesEnvironmentBranch exampleCBuffer st = (False, st)"
    by (simp add: takesEnvironmentBranch_def exampleCBuffer_def)
  then have "calculateDirect exampleScene exampleCBuffer hitData st =
      directAreaLight exampleScene exampleCBuffer hitData st"
    by (simp add: calculateDirect_def)
  also have "\<dots> = Inr (areaLightContribution exampleScene hitData exampleLight (1 / 2) st1)"
    by (simp add: directAreaLight_def assms two)
  also have "areaLightContribution exampleScene hitData exampleLight (1 / 2) st1 =
      (fst (areaLightContribution exampleScene hitData exampleLight (1 / 2) st1),
       snd (rnd (snd (rnd st1))))"
    by (simp add: prod_eq_iff areaLightContribution_state)
  finally show ?thesis .
qed

lemma areaLightContribution_emissive:
  assumes "bsdf hitData = 1"
  shows "fst (areaLightContribution sc hitData light pmf st) = float3 0 0 0"
proof -
  have "evaluateBSDF hitData wi = float3 0 0 0" for wi
    using assms by (simp add: evaluateBSDF_def)
  then show ?thesis
    by (cases "sampleAreaLight light st")
      (simp add: areaLightContribution_def Let_def mul3_def scale3_def divide3_def)
qed

lemma sampleBSDF_emissive_example:
  "sampleBSDF exampleRay emissiveHit st = Inr (float3 0 0 1, float3 0 0 0, 0, False, st)"
  by (simp add: sampleBSDF_def Let_def emissiveHit_def exampleHit_def exampleRay_def
      mul_vec_mat_def transpose3x3_def neg3_def scale3_def add3_def normalize3_def divide3_def
      length3_def dot_def)

lemma sampleBSDF_diffuse_zero_draw:
  "\<exists>wi. sampleBSDF exampleRay exampleHit 449710063 =
          Inr (wi, float3 (1 / PI) (1 / PI) (1 / PI), 0, False, 2891336453)"
  by (simp add: sampleBSDF_def Let_def exampleHit_def rnd_zero_draw rnd_0
      cosineSampleHemisphere_def sphericalToWorld_def cosineHemispherePDF_def divide3_def)

theorem nonpositive_pdf_stops_witness:
  "(\<exists>wi. sampleBSDF exampleRay exampleHit 449710063 =
          Inr (wi, float3 (1 / PI) (1 / PI) (1 / PI), 0, False, 2891336453))
   \<and> ClosestHit exampleScene exampleCBuffer exampleRay exampleHit
       (examplePayload\<lparr>rndState := 1466041236\<rparr>) =
       Stop (examplePayload\<lparr>
         colour := add3 (float3 0 0 0) (mul3 (float3 1 1 1)
           (fst (areaLightContribution exampleScene exampleHit exampleLight (1 / 2) 2125766313))),
         rndState := 2891336453\<rparr>)
   \<and> sampleBSDF exampleRay emissiveHit 568162667 = Inr (float3 0 0 1, float3 0 0 0, 0, False, 568162667)
   \<and> ClosestHit exampleScene exampleCBuffer exampleRay emissiveHit (examplePayload\<lparr>depth := 1\<rparr>) =
       Stop (examplePayload\<lparr>depth := 1, rndState := 568162667\<rparr>)
   \<and> \<not> is_Trace (ClosestHit exampleScene exampleCBuffer exampleRay emissiveHit examplePayload)"
proof -
  define p0 where "p0 = examplePayload\<lparr>rndState := 1466041236\<rparr>"
  define p1 where "p1 = examplePayload\<lparr>depth := 1\<rparr>"
  define d0 where "d0 = fst (areaLightContribution exampleScene exampleHit exampleLight (1 / 2) 2125766313)"
  have f0: "depth p0 = 0" "flags p0 = 0" "rndState p0 = 1466041236"
      "colour p0 = float3 0 0 0" "pathThroughput p0 = float3 1 1 1"
    and f1: "depth p1 = 1" "flags p1 = 0" "rndState p1 = 0"
      "colour p1 = float3 0 0 0" "pathThroughput p1 = float3 1 1 1"
    by (simp_all add: p0_def p1_def examplePayload_def)
  obtain wi where s0: "sampleBSDF exampleRay exampleHit 449710063 =
      Inr (wi, float3 (1 / PI) (1 / PI) (1 / PI), 0, False, 2891336453)"
    using sampleBSDF_diffuse_zero_draw by blast
  have g0: "\<not> (isLight exampleHit \<and> (depth p0 = 0 \<or> decodeIsSpecular (flags p0)))"
    by (simp add: isLight_def exampleHit_def)
  have c0: "calculateDirect exampleScene exampleCBuffer exampleHit (rndState p0) = Inr (d0, 449710063)"
    using calculateDirect_example_state [OF sampleLight_example_zero_draw, of exampleHit]
    by (simp add: f0 d0_def rnd_zero_draw)
  have r0: "if 3 < depth p0
       then rouletteStep (fst (rnd 449710063)) (depth p0) (pathThroughput p0) = Some (pathThroughput p0)
            \<and> 449710063 = snd (rnd 449710063)
       else pathThroughput p0 = pathThroughput p0 \<and> (449710063 :: uint) = 449710063"
    by (simp add: f0)
  have n0: "depth p0 \<noteq> 6"
    by (simp add: f0)
  have z: "(0 :: real) \<le> 0"
    by simp
  from g0 c0 n0 r0 s0 z
  have prem0: "\<not> (isLight exampleHit \<and> (depth p0 = 0 \<or> decodeIsSpecular (flags p0)))
     \<and> calculateDirect exampleScene exampleCBuffer exampleHit (rndState p0) = Inr (d0, 449710063)
     \<and> depth p0 \<noteq> 6
     \<and> (if 3 < depth p0
          then rouletteStep (fst (rnd 449710063)) (depth p0) (pathThroughput p0) = Some (pathThroughput p0)
               \<and> 449710063 = snd (rnd 449710063)
          else pathThroughput p0 = pathThroughput p0 \<and> (449710063 :: uint) = 449710063)
     \<and> sampleBSDF exampleRay exampleHit 449710063 =
         Inr (wi, float3 (1 / PI) (1 / PI) (1 / PI), 0, False, 2891336453)
     \<and> (0 :: real) \<le> 0"
    by (intro conjI)
  have "ClosestHit exampleScene exampleCBuffer exampleRay exampleHit p0 =
      Stop (p0\<lparr>colour := add3 (colour p0) (mul3 (pathThroughput p0) d0),
               rndState := 2891336453, pathThroughput := pathThroughput p0\<rparr>)"
    by (rule nonpositive_pdf_stops [THEN conjunct1, rule_format, OF prem0])
  then have a: "ClosestHit exampleScene exampleCBuffer exampleRay exampleHit
       (examplePayload\<lparr>rndState := 1466041236\<rparr>) =
       Stop (examplePayload\<lparr>
         colour := add3 (float3 0 0 0) (mul3 (float3 1 1 1)
           (fst (areaLightContribution exampleScene exampleHit exampleLight (1 / 2) 2125766313))),
         rndState := 2891336453\<rparr>)"
    unfolding f0 d0_def by (simp add: p0_def examplePayload_def)
  have e: "bsdf emissiveHit = 1"
    by (simp add: emissiveHit_def)
  have g1: "\<not> (isLight emissiveHit \<and> (depth p1 = 0 \<or> decodeIsSpecular (flags p1)))"
    by (simp add: f1 decodeIsSpecular_def)
  have c1: "calculateDirect exampleScene exampleCBuffer emissiveHit (rndState p1) =
      Inr (float3 0 0 0, 568162667)"
    using calculateDirect_example_state [OF sampleLight_example, of emissiveHit]
    by (simp add: f1 areaLightContribution_emissive [OF e] rnd_chain)
  have r1: "if 3 < depth p1
       then rouletteStep (fst (rnd 568162667)) (depth p1) (pathThroughput p1) = Some (pathThroughput p1)
            \<and> 568162667 = snd (rnd 568162667)
       else pathThroughput p1 = pathThroughput p1 \<and> (568162667 :: uint) = 568162667"
    by (simp add: f1)
  have n1: "depth p1 \<noteq> 6"
    by (simp add: f1)
  from g1 c1 n1 r1 sampleBSDF_emissive_example [of 568162667] z
  have prem1: "\<not> (isLight emissiveHit \<and> (depth p1 = 0 \<or> decodeIsSpecular (flags p1)))
     \<and> calculateDirect exampleScene exampleCBuffer emissiveHit (rndState p1) = Inr (float3 0 0 0, 568162667)
     \<and> depth p1 \<noteq> 6
     \<and> (if 3 < depth p1
          then rouletteStep (fst (rnd 568162667)) (depth p1) (pathThroughput p1) = Some (pathThroughput p1)
               \<and> 568162667 = snd (rnd 568162667)
          else pathThroughput p1 = pathThroughput p1 \<and> (568162667 :: uint) = 568162667)
     \<and> sampleBSDF exampleRay emissiveHit 568162667 =
         Inr (float3 0 0 1, float3 0 0 0, 0, False, 568162667)
     \<and> (0 :: real) \<le> 0"
    by (intro conjI)
  have "ClosestHit exampleScene exampleCBuffer exampleRay emissiveHit p1 =
      Stop (p1\<lparr>colour := add3 (colour p1) (mul3 (pathThroughput p1) (float3 0 0 0)),
               rndState := 568162667, pathThroughput := pathThroughput p1\<rparr>)"
    by (rule nonpositive_pdf_stops [THEN conjunct1, rule_format, OF prem1])
  then have b: "ClosestHit exampleScene exampleCBuffer exampleRay emissiveHit (examplePayload\<lparr>depth := 1\<rparr>) =
       Stop (examplePayload\<lparr>depth := 1, rndState := 568162667\<rparr>)"
    unfolding f1 by (simp add: p1_def examplePayload_def add3_def mul3_def)
  have c: "\<not> is_Trace (ClosestHit exampleScene exampleCBuffer exampleRay emissiveHit examplePayload)"
    by (rule nonpositive_pdf_stops [THEN conjunct2, THEN conjunct1, rule_format, THEN conjunct2])
      (rule e)
  from sampleBSDF_diffuse_zero_draw a sampleBSDF_emissive_example [of 568162667] b c
  show ?thesis
    by (intro conjI)
qed

section \<open>The accumulated colour on an emissive hit (claim C7)\<close>

text \<open>
  Claim C7: for every path and every bounce, the accumulated radiance (payload colour)
  is built additively and monotonically: each transition of the path state machine only
  adds a non-negative (possibly zero) contribution to the accumulated colour and never
  decreases any of its components.

  The miss shader and the direct lighting add to the colour. The emissive hit does not:
  when the hit surface is a light and the depth is 0 or the last bounce was specular,
  \<open>ClosestHit\<close> assigns the emission to the colour, without the throughput and without
  the colour accumulated so far. At depth 0 the colour is still zero and the assignment
  is an addition; after a specular bounce it is not. The theorem is a hit at depth 2,
  after a specular bounce, with an accumulated colour of \<open>(1, 1, 1)\<close>, on a light of
  emission \<open>(1/2, 1/2, 1/2)\<close>: every component of the colour goes down to \<open>1/2\<close>.
\<close>

theorem emissive_hit_overwrites_colour:
  "ClosestHit sc cb ray
     (hitData\<lparr>bsdf := 1, inst := (inst hitData)\<lparr>bsdfData := [1 / 2, 1 / 2, 1 / 2, 0, 0, 0, 0]\<rparr>\<rparr>)
     (payload\<lparr>depth := 2, flags := 2, colour := float3 1 1 1\<rparr>)
   = Stop (payload\<lparr>depth := 2, flags := 2, colour := float3 (1 / 2) (1 / 2) (1 / 2)\<rparr>)"
  by (simp add: ClosestHit_def isLight_def decodeIsSpecular_def)

section \<open>Frames (claim C8)\<close>

lemma floatBits_123:
  "floatBits (Suc 0) = 0x3F800000" "floatBits 2 = 0x40000000" "floatBits 3 = 0x40400000"
  by (simp_all add: floatBits_def roundToFloat_def Let_def bitLength_0 bitLength_pos)

lemma rnd_frames:
  "rnd 2323644416 = (2478001152 / 4294967296, 416697093)"
  "rnd 416697093 = (2466827264 / 4294967296, 2106763406)"
  "rnd 3221225472 = (3636586752 / 4294967296, 1817594629)"
  "rnd 1817594629 = (3549880320 / 4294967296, 118663310)"
  "rnd 1522532352 = (752437632 / 4294967296, 370559749)"
  "rnd 370559749 = (1269069568 / 4294967296, 1272096910)"
  by (simp_all add: rnd_def uintToFloat_def roundToFloat_def Let_def bitLength_0 bitLength_pos)

lemma uintToFloat_01: "uintToFloat 0 = 0" "uintToFloat 1 = 1"
  by (simp_all add: uintToFloat_def roundToFloat_def Let_def bitLength_0 bitLength_pos)

lemma primaryPayload_frames:
  "primaryPayload (halfCBuffer\<lparr>SPP := 0x3F800000\<rparr>) (0, 0) =
     \<lparr>depth = 0, flags = 0, rndState = 2323644416, colour = float3 0 0 0, pathThroughput = float3 1 1 1\<rparr>"
  "primaryPayload (halfCBuffer\<lparr>SPP := 0x40000000\<rparr>) (0, 0) =
     \<lparr>depth = 0, flags = 0, rndState = 3221225472, colour = float3 0 0 0, pathThroughput = float3 1 1 1\<rparr>"
  "primaryPayload (halfCBuffer\<lparr>SPP := 0x40400000\<rparr>) (0, 0) =
     \<lparr>depth = 0, flags = 0, rndState = 1522532352, colour = float3 0 0 0, pathThroughput = float3 1 1 1\<rparr>"
  by (simp_all add: primaryPayload_def)

lemmas frame_eval = Let_def uintToFloat_01
  halfCBuffer_def identity4x4_def mul_mat_vec4_def dot4_def xyz_def normalize3_def divide3_def
  length3_def dot_def TraceRay.simps halfScene_def ClosestHit_def isLight_def emissiveHit_def
  exampleHit_def tmo_def Miss_def decodeIsShadow_def evaluateEnvironmentMap_def add3_def mul3_def

lemma RayGeneration_frames:
  "RayGeneration halfScene (halfCBuffer\<lparr>SPP := 0x3F800000\<rparr>) (0, 0) (1, 1) uav
     = Inr (uav((0, 0) := float4 1 1 1 1))"
  "RayGeneration halfScene (halfCBuffer\<lparr>SPP := 0x40000000\<rparr>) (0, 0) (1, 1) uav
     = Inr (uav((0, 0) := float4 1 1 1 1))"
  "RayGeneration halfScene (halfCBuffer\<lparr>SPP := 0x40400000\<rparr>) (0, 0) (1, 1) uav
     = Inr (uav((0, 0) := float4 0 0 0 1))"
  unfolding RayGeneration_def primaryPayload_frames
  by (simp_all add: rnd_frames frame_eval)

text \<open>
  Claim C8: for every pixel and every frame, the accumulator merges the frame's one
  traced sample into a running average over the accumulated sample count (progressive
  refinement, reset when camera state changes); consequently, accumulating the same
  deterministic sample N times and averaging equals that single sample's value exactly.

  \<open>WinMain\<close> keeps the sample count, resets it on a camera input and passes it to the
  shader, and the comment of \<open>RayGeneration\<close> and the README say that results are
  accumulated. The shader uses the count to seed the sampler and for nothing else: it
  writes the tone-mapped colour of the frame's sample over the pixel, without reading
  what the pixel held. The theorem runs three frames, with no camera input, on a pixel
  whose samples are white, white and black: after the third frame the pixel is black,
  where the average of the three samples is \<open>(2/3, 2/3, 2/3)\<close>.
\<close>

theorem frames_overwrite_pixel:
  "frame halfScene halfCBuffer False (0, 0) (1, 1) (0, uav)
     = Inr (1, uav((0, 0) := float4 1 1 1 1))
   \<and> frame halfScene halfCBuffer False (0, 0) (1, 1) (1, uav((0, 0) := float4 1 1 1 1))
     = Inr (2, uav((0, 0) := float4 1 1 1 1))
   \<and> frame halfScene halfCBuffer False (0, 0) (1, 1) (2, uav((0, 0) := float4 1 1 1 1))
     = Inr (3, uav((0, 0) := float4 0 0 0 1))"
  by (simp add: frame_def nextSPP_def floatBits_123 RayGeneration_frames)

end
